theory Spec2Isabelle
  imports Main "HOL-Library.List_Lexorder" "HOL-Library.Sublist"
begin

section \<open>Python values\<close>

text \<open>
  A Python \<open>str\<close> is a sequence of Unicode code points: \<open>len\<close> counts code points,
  \<open>==\<close> compares them one by one and \<open><\<close> is the lexicographic order of the code
  points, a proper prefix being smaller. All three are those of \<open>nat list\<close> under the
  lexicographic order of lists. An ASCII literal of the source is written \<open>str ''...''\<close>;
  the non-ASCII characters of the templates are given by their code points.
\<close>

type_synonym pystr = "nat list"

definition str :: "string \<Rightarrow> pystr" where
  "str s = map of_char s"

text \<open>
  The values \<open>json.loads\<close> produces. A JSON object is the association list of its
  members, read with \<open>map_of\<close>. \<open>JFloat\<close> stands for a number with a fraction or an
  exponent, \<open>JFloat m e\<close> for the decimal literal \<open>m\<close> times ten to the \<open>e\<close>; the program
  never computes with a number.
\<close>

datatype json =
    JNull
  | JBool bool
  | JInt int
  | JFloat int int
  | JStr pystr
  | JArr "json list"
  | JObj "(pystr \<times> json) list"

text \<open>
  An exception object, as far as the handlers of the program can tell exceptions apart:
  the \<open>except\<close> clauses it is an instance of, and \<open>str(e)\<close>.
\<close>

record py_exception =
  is_Timeout :: bool
  is_ConnectionError :: bool
  is_RequestException :: bool
  is_JSONDecodeError :: bool
  exc_str :: pystr

text \<open>An exception raised by the interpreter itself (KeyError, TypeError, AttributeError).\<close>

definition interpreter_error :: "pystr \<Rightarrow> py_exception" where
  "interpreter_error text =
     \<lparr>is_Timeout = False, is_ConnectionError = False, is_RequestException = False,
      is_JSONDecodeError = False, exc_str = text\<rparr>"

text \<open>\<open>repr\<close> of a string free of quotes, backslashes and non-printable characters.\<close>

definition py_repr :: "pystr \<Rightarrow> pystr" where
  "py_repr s = [39] @ s @ [39]"

section \<open>The conversation store\<close>

text \<open>
  \<open>conversations\<close> is a dict from session id to the list of the session's messages, each
  message a dict with the keys \<open>role\<close> and \<open>content\<close>. The dict is an association list in
  insertion order; a dict holds each key once (\<open>wf_conversations\<close>).
\<close>

record message =
  role :: pystr
  content :: json

type_synonym session_id = pystr

type_synonym conversations = "(session_id \<times> message list) list"

definition wf_conversations :: "conversations \<Rightarrow> bool" where
  "wf_conversations d = distinct (map fst d)"

definition MAX_CONVERSATIONS :: nat where
  "MAX_CONVERSATIONS = 100"

definition MAX_MESSAGES_PER_CONVERSATION :: nat where
  "MAX_MESSAGES_PER_CONVERSATION = 50"

text \<open>\<open>k in d\<close>, \<open>d[k] = v\<close> and \<open>del d[k]\<close>.\<close>

definition dict_contains :: "'k \<Rightarrow> ('k \<times> 'v) list \<Rightarrow> bool" where
  "dict_contains k d = (k \<in> fst ` set d)"

fun dict_set :: "'k \<Rightarrow> 'v \<Rightarrow> ('k \<times> 'v) list \<Rightarrow> ('k \<times> 'v) list" where
  "dict_set k v [] = [(k, v)]"
| "dict_set k v (p # ps) = (if fst p = k then (k, v) # ps else p # dict_set k v ps)"

definition dict_del :: "'k \<Rightarrow> ('k \<times> 'v) list \<Rightarrow> ('k \<times> 'v) list" where
  "dict_del k d = filter (\<lambda>p. fst p \<noteq> k) d"

text \<open>
  \<open>clean_old_conversations\<close>: when the dict holds more than \<open>MAX_CONVERSATIONS\<close> sessions,
  the first ten keys of \<open>sorted(conversations.keys())\<close> are deleted one after the other.
  \<open>del\<close> raises KeyError on a key the dict does not hold; the loop stops there.
\<close>

fun del_sessions :: "session_id list \<Rightarrow> conversations \<Rightarrow> py_exception option \<times> conversations" where
  "del_sessions [] d = (None, d)"
| "del_sessions (k # ks) d =
     (if dict_contains k d then del_sessions ks (dict_del k d)
      else (Some (interpreter_error (py_repr k)), d))"

definition clean_old_conversations :: "conversations \<Rightarrow> py_exception option \<times> conversations" where
  "clean_old_conversations d =
     (if length d > MAX_CONVERSATIONS
      then del_sessions (take 10 (sort (map fst d))) d
      else (None, d))"

section \<open>Operations of the interpreter on parsed JSON\<close>

text \<open>
  The gateway client walks the parsed response body with \<open>in\<close>, \<open>len\<close> and subscripts.
  Each of them raises on a value of the wrong type; the raise is the \<open>Inl\<close> branch. The
  texts are those of CPython 3.
\<close>

fun type_name :: "json \<Rightarrow> pystr" where
  "type_name JNull = str ''NoneType''"
| "type_name (JBool b) = str ''bool''"
| "type_name (JInt i) = str ''int''"
| "type_name (JFloat m e) = str ''float''"
| "type_name (JStr s) = str ''str''"
| "type_name (JArr xs) = str ''list''"
| "type_name (JObj m) = str ''dict''"

text \<open>\<open>key in x\<close> for a string \<open>key\<close>.\<close>

fun py_contains :: "pystr \<Rightarrow> json \<Rightarrow> py_exception + bool" where
  "py_contains key (JObj m) = Inr (dict_contains key m)"
| "py_contains key (JArr xs) = Inr (JStr key \<in> set xs)"
| "py_contains key (JStr s) = Inr (sublist key s)"
| "py_contains key x =
     Inl (interpreter_error (str ''argument of type '' @ py_repr (type_name x) @ str '' is not iterable''))"

text \<open>\<open>x[key]\<close> for a string \<open>key\<close>.\<close>

fun py_getitem :: "json \<Rightarrow> pystr \<Rightarrow> py_exception + json" where
  "py_getitem (JObj m) key =
     (case map_of m key of
        Some v \<Rightarrow> Inr v
      | None \<Rightarrow> Inl (interpreter_error (py_repr key)))"
| "py_getitem (JArr xs) key =
     Inl (interpreter_error (str ''list indices must be integers or slices, not str''))"
| "py_getitem (JStr s) key =
     Inl (interpreter_error (str ''string indices must be integers, not '' @ py_repr (str ''str'')))"
| "py_getitem x key =
     Inl (interpreter_error (py_repr (type_name x) @ str '' object is not subscriptable''))"

text \<open>\<open>x[0]\<close>. The keys of a JSON object are strings, so \<open>0\<close> is none of them.\<close>

fun py_getitem0 :: "json \<Rightarrow> py_exception + json" where
  "py_getitem0 (JArr []) = Inl (interpreter_error (str ''list index out of range''))"
| "py_getitem0 (JArr (x # xs)) = Inr x"
| "py_getitem0 (JStr []) = Inl (interpreter_error (str ''string index out of range''))"
| "py_getitem0 (JStr (c # cs)) = Inr (JStr [c])"
| "py_getitem0 (JObj m) = Inl (interpreter_error (str ''0''))"
| "py_getitem0 x =
     Inl (interpreter_error (py_repr (type_name x) @ str '' object is not subscriptable''))"

text \<open>\<open>len(x)\<close>; a dict counts its keys.\<close>

fun py_len :: "json \<Rightarrow> py_exception + nat" where
  "py_len (JStr s) = Inr (length s)"
| "py_len (JArr xs) = Inr (length xs)"
| "py_len (JObj m) = Inr (length (remdups (map fst m)))"
| "py_len x =
     Inl (interpreter_error (str ''object of type '' @ py_repr (type_name x) @ str '' has no len()''))"

text \<open>The truth value of an object (\<open>if x\<close>, \<open>not x\<close>, \<open>x or y\<close>).\<close>

fun truthy :: "json \<Rightarrow> bool" where
  "truthy JNull = False"
| "truthy (JBool b) = b"
| "truthy (JInt i) = (i \<noteq> 0)"
| "truthy (JFloat m e) = (m \<noteq> 0)"
| "truthy (JStr s) = (s \<noteq> [])"
| "truthy (JArr xs) = (xs \<noteq> [])"
| "truthy (JObj m) = (m \<noteq> [])"

text \<open>\<open>x or default\<close> for an optional string: \<open>None\<close> and the empty string are false.\<close>

fun py_or :: "pystr option \<Rightarrow> pystr \<Rightarrow> pystr" where
  "py_or None d = d"
| "py_or (Some s) d = (if s = [] then d else s)"

text \<open>The truth value of an optional string.\<close>

definition is_true :: "pystr option \<Rightarrow> bool" where
  "is_true x = (py_or x [] \<noteq> [])"

text \<open>\<open>str(n)\<close> for an integer.\<close>

fun digits :: "nat \<Rightarrow> pystr" where
  "digits n = (if n < 10 then [48 + n] else digits (n div 10) @ [48 + n mod 10])"

declare digits.simps [simp del]

definition str_int :: "int \<Rightarrow> pystr" where
  "str_int i = (if i < 0 then 45 # digits (nat (- i)) else digits (nat i))"

text \<open>Sequencing of steps that may raise.\<close>

fun and_then :: "'e + 'a \<Rightarrow> ('a \<Rightarrow> 'e + 'b) \<Rightarrow> 'e + 'b" where
  "and_then (Inl e) f = Inl e"
| "and_then (Inr x) f = f x"

section \<open>The fallback generator\<close>

text \<open>
  The five section headings of the response structure, as they stand in the system
  prompt and in the fallback template.
\<close>

definition marker_quick_summary :: pystr where
  "marker_quick_summary = str ''**'' @ [0x1F4DD] @ str '' QUICK SUMMARY:**''"

definition marker_detailed_explanation :: pystr where
  "marker_detailed_explanation = str ''**'' @ [0x1F4DA] @ str '' DETAILED EXPLANATION:**''"

definition marker_practical_examples :: pystr where
  "marker_practical_examples = str ''**'' @ [0x1F4A1] @ str '' PRACTICAL EXAMPLES:**''"

definition marker_actionable_steps :: pystr where
  "marker_actionable_steps = str ''**'' @ [0x1F527] @ str '' ACTIONABLE STEPS:**''"

definition marker_related_questions :: pystr where
  "marker_related_questions = str ''**'' @ [0x2753] @ str '' RELATED QUESTIONS TO EXPLORE:**''"

definition default_fallback_message :: pystr where
  "default_fallback_message =
     str ''I'm experiencing technical difficulties but I'm here to help.''"

definition generate_fallback_response :: "pystr option \<Rightarrow> pystr" where
  "generate_fallback_response custom_message =
     (let base_message = py_or custom_message default_fallback_message in
      marker_quick_summary @ [10] @
      base_message @ [10] @
      [10] @
      marker_detailed_explanation @ [10] @
      str ''I'm Gromo Coach, designed to provide comprehensive financial guidance including insurance, investments, tax planning, and banking solutions. Currently experiencing some technical issues, but I'll do my best to help you.'' @ [10] @
      [10] @
      marker_practical_examples @ [10] @
      str ''- Life insurance planning for young professionals ('' @ [0x20B9] @ str ''50 lakh coverage for '' @ [0x20B9] @ str ''500/month)'' @ [10] @
      str ''- SIP investments for wealth building ('' @ [0x20B9] @ str ''5000/month can grow to '' @ [0x20B9] @ str ''50 lakh in 15 years)'' @ [10] @
      str ''- Tax-saving strategies under Section 80C (save up to '' @ [0x20B9] @ str ''46,800 in taxes)'' @ [10] @
      [10] @
      marker_actionable_steps @ [10] @
      str ''1. Please try your question again in a moment'' @ [10] @
      str ''2. Be specific about your financial situation (age, income, goals)'' @ [10] @
      str ''3. Mention your investment timeline for better advice'' @ [10] @
      str ''4. Consider speaking with a financial advisor for complex queries'' @ [10] @
      [10] @
      marker_related_questions @ [10] @
      str ''- What's the best investment strategy for someone my age?'' @ [10] @
      str ''- How much life insurance coverage do I actually need?'' @ [10] @
      str ''- Which tax-saving options give the best returns?'' @ [10] @
      str ''- How should I create and maintain an emergency fund?'')"

section \<open>The gateway client\<close>

text \<open>
  What \<open>requests.post\<close> does is not the program's: it either raises or returns a response
  with a status code, whose \<open>json()\<close> either raises or returns the parsed body.
\<close>

datatype provider_outcome =
    PostRaises py_exception
  | Response int "py_exception + json"

text \<open>\<open>"choices" in result and len(result["choices"]) > 0\<close>, the second operand evaluated
  only when the first is true.\<close>

definition has_choices :: "json \<Rightarrow> py_exception + bool" where
  "has_choices result =
     and_then (py_contains (str ''choices'') result) (\<lambda>present.
       if present
       then and_then (py_getitem result (str ''choices'')) (\<lambda>choices.
            and_then (py_len choices) (\<lambda>n. Inr (n > 0)))
       else Inr False)"

text \<open>\<open>result["choices"][0]["message"]["content"]\<close>.\<close>

definition first_choice_content :: "json \<Rightarrow> py_exception + json" where
  "first_choice_content result =
     and_then (py_getitem result (str ''choices'')) (\<lambda>choices.
     and_then (py_getitem0 choices) (\<lambda>choice.
     and_then (py_getitem choice (str ''message'')) (\<lambda>msg.
     py_getitem msg (str ''content''))))"

text \<open>
  The body of the \<open>try\<close> block. On the success path the log line formats
  \<open>len(ai_response)\<close> before the \<open>return\<close>, so a content without a length raises.
\<close>

definition groq_request :: "provider_outcome \<Rightarrow> py_exception + json" where
  "groq_request outcome =
     (case outcome of
        PostRaises e \<Rightarrow> Inl e
      | Response status_code body \<Rightarrow>
          if status_code = 200
          then and_then body (\<lambda>result.
               and_then (has_choices result) (\<lambda>ok.
                 if ok
                 then and_then (first_choice_content result) (\<lambda>ai_response.
                      and_then (py_len ai_response) (\<lambda>n. Inr ai_response))
                 else Inr (JStr (generate_fallback_response
                        (Some (str ''API returned no response choices''))))))
          else if status_code = 401
          then Inr (JStr (generate_fallback_response
                 (Some (str ''API authentication failed - please check API key''))))
          else if status_code = 429
          then Inr (JStr (generate_fallback_response
                 (Some (str ''API rate limit exceeded - please try again later''))))
          else if status_code \<ge> 500
          then Inr (JStr (generate_fallback_response
                 (Some (str ''API server error - please try again''))))
          else Inr (JStr (generate_fallback_response
                 (Some (str ''API Error '' @ str_int status_code)))))"

text \<open>The \<open>except\<close> clauses, tried in the order of the source.\<close>

definition groq_except :: "py_exception \<Rightarrow> pystr" where
  "groq_except e =
     (if is_Timeout e
      then generate_fallback_response
             (Some (str ''The AI is taking longer than usual to respond. Please try again.''))
      else if is_ConnectionError e
      then generate_fallback_response
             (Some (str ''Unable to connect to AI service. Please check your internet connection.''))
      else if is_RequestException e
      then generate_fallback_response (Some (str ''Network error: '' @ exc_str e))
      else if is_JSONDecodeError e
      then generate_fallback_response (Some (str ''Invalid response format from AI service''))
      else generate_fallback_response (Some (str ''Unexpected error: '' @ exc_str e)))"

text \<open>
  \<open>generate_groq_response(messages, max_tokens)\<close>; \<open>post\<close> is the provider: the outcome of
  \<open>requests.post\<close> for the messages and token budget sent.
\<close>

definition generate_groq_response ::
    "(message list \<Rightarrow> nat \<Rightarrow> provider_outcome) \<Rightarrow> message list \<Rightarrow> nat \<Rightarrow> json" where
  "generate_groq_response post messages max_tokens =
     (case groq_request (post messages max_tokens) of
        Inr r \<Rightarrow> r
      | Inl e \<Rightarrow> JStr (groq_except e))"

section \<open>The prompt composer\<close>

text \<open>
  The profile block is built only when both \<open>agent_name\<close> and \<open>client_name\<close> are true;
  there \<open>{agent_name}\<close> and \<open>{client_name}\<close> are the strings themselves.
\<close>

definition generate_enhanced_system_prompt ::
    "pystr option \<Rightarrow> pystr option \<Rightarrow> pystr option \<Rightarrow> pystr option \<Rightarrow> pystr option \<Rightarrow> pystr \<Rightarrow> pystr" where
  "generate_enhanced_system_prompt agent_name client_name client_age client_income client_goal language =
     (let base_info =
        (if is_true agent_name \<and> is_true client_name
         then [10] @
              str ''### '' @ [0x1F465] @ str '' Session Info:'' @ [10] @
              str ''- **Gromo Agent**: '' @ py_or agent_name [] @ [10] @
              str ''- **Client**: '' @ py_or client_name [] @ [10] @
              str ''- **Age**: '' @ py_or client_age (str ''Not specified'') @ [10] @
              str ''- **Monthly Income**: '' @ [0x20B9] @ py_or client_income (str ''Not specified'') @ [10] @
              str ''- **Goal**: '' @ py_or client_goal (str ''General financial guidance'') @ [10] @
              str ''- **Language**: '' @ language @ [10]
         else [])
      in
      [10] @
      str ''You are **Gromo Coach**, an advanced AI financial advisor for Gromo - India's leading financial services platform. You provide comprehensive, detailed responses with practical examples.'' @ [10] @
      [10] @
      base_info @ [10] @
      str ''---'' @ [10] @
      str ''### '' @ [0x1F3AF] @ str '' RESPONSE STRUCTURE (MANDATORY):'' @ [10] @
      [10] @
      str ''For EVERY user question, structure your response exactly like this:'' @ [10] @
      [10] @
      marker_quick_summary @ [10] @
      str ''[1-2 sentence summary of the answer]'' @ [10] @
      [10] @
      marker_detailed_explanation @ [10] @
      str ''[Comprehensive explanation broken into clear sections with headings]'' @ [10] @
      [10] @
      marker_practical_examples @ [10] @
      str ''[Provide 2-3 real-world examples, preferably Indian context]'' @ [10] @
      [10] @
      marker_actionable_steps @ [10] @
      str ''[Give specific, actionable advice the user can implement]'' @ [10] @
      [10] @
      marker_related_questions @ [10] @
      str ''[Suggest 3-4 relevant follow-up questions they might want to ask]'' @ [10] @
      [10] @
      str ''### '' @ [0x1F3AF] @ str '' Your Enhanced Capabilities:'' @ [10] @
      [10] @
      str ''**Financial Expertise Areas:**'' @ [10] @
      str ''- Insurance, Investments, Banking, Tax Planning, Real Estate, etc.'' @ [10] @
      [10] @
      str ''**Communication Style:**'' @ [10] @
      str ''- Be conversational but professional'' @ [10] @
      str ''- Use Indian examples and context'' @ [10] @
      str ''- Include relevant numbers and calculations'' @ [10] @
      str ''- Provide actionable advice'' @ [10] @
      [10] @
      str ''IMPORTANT: Every response must follow the 5-section structure. Never skip any section.'' @ [10])"

section \<open>Requests and responses\<close>

text \<open>
  The members of the JSON object of a request that the handlers read, each absent
  (\<open>None\<close>) or present; \<open>other_keys\<close> tells whether the object has any other member.
  The embedding covers the requests whose members have the types the handlers expect:
  strings, and a boolean for \<open>reset\<close>.
\<close>

record chat_data =
  f_session_id :: "pystr option"
  f_sessionId :: "pystr option"
  f_message :: "pystr option"
  f_agent_name :: "pystr option"
  f_client_name :: "pystr option"
  f_client_age :: "pystr option"
  f_client_income :: "pystr option"
  f_client_goal :: "pystr option"
  f_language :: "pystr option"
  f_reset :: "bool option"
  other_keys :: bool

text \<open>
  The body of a request as Flask presents it: not JSON (\<open>request.is_json\<close> false); JSON
  that \<open>get_json\<close> rejects by raising; a JSON value that is no object, given by its truth
  value and by the AttributeError that calling \<open>get\<close> on it raises; or an object.
\<close>

datatype request_body =
    NotJson
  | Unparseable py_exception
  | NonObject bool py_exception
  | Object chat_data

text \<open>\<open>not data\<close> for an object: the empty dict.\<close>

definition no_data :: "chat_data \<Rightarrow> bool" where
  "no_data data =
     (f_session_id data = None \<and> f_sessionId data = None \<and> f_message data = None \<and>
      f_agent_name data = None \<and> f_client_name data = None \<and> f_client_age data = None \<and>
      f_client_income data = None \<and> f_client_goal data = None \<and> f_language data = None \<and>
      f_reset data = None \<and> \<not> other_keys data)"

text \<open>\<open>data.get(key, default)\<close>.\<close>

fun get_default :: "'a option \<Rightarrow> 'a \<Rightarrow> 'a" where
  "get_default None d = d"
| "get_default (Some v) d = v"

text \<open>\<open>str.strip()\<close> removes the leading and trailing characters that \<open>str.isspace\<close> accepts.\<close>

definition is_space :: "nat \<Rightarrow> bool" where
  "is_space c =
     ((9 \<le> c \<and> c \<le> 13) \<or> (28 \<le> c \<and> c \<le> 32) \<or> c = 0x85 \<or> c = 0xA0 \<or> c = 0x1680 \<or>
      (0x2000 \<le> c \<and> c \<le> 0x200A) \<or> c = 0x2028 \<or> c = 0x2029 \<or> c = 0x202F \<or>
      c = 0x205F \<or> c = 0x3000)"

definition strip :: "pystr \<Rightarrow> pystr" where
  "strip s = rev (dropWhile is_space (rev (dropWhile is_space s)))"

text \<open>
  What a handler takes from outside the program: the provider, the value of
  \<open>str(uuid.uuid4())\<close> and the value of \<open>datetime.now().isoformat()\<close>.
\<close>

record env =
  post :: "message list \<Rightarrow> nat \<Rightarrow> provider_outcome"
  new_uuid :: pystr
  now :: pystr

text \<open>A response: the JSON body given to \<open>jsonify\<close> and the HTTP status.\<close>

type_synonym http_response = "json \<times> nat"

definition bad_request :: "pystr \<Rightarrow> http_response" where
  "bad_request msg = (JObj [(str ''error'', JStr msg), (str ''success'', JBool False)], 400)"

definition internal_error :: "py_exception \<Rightarrow> http_response" where
  "internal_error e =
     (JObj [(str ''error'', JStr (str ''An internal error occurred'')),
            (str ''success'', JBool False),
            (str ''details'', JStr (exc_str e))], 500)"

section \<open>The chat endpoints\<close>

text \<open>\<open>[conv[0]] + conv[-40:]\<close> when the conversation is longer than the cap.\<close>

definition trim :: "message list \<Rightarrow> message list" where
  "trim conv =
     (if length conv > MAX_MESSAGES_PER_CONVERSATION
      then [conv ! 0] @ drop (length conv - 40) conv
      else conv)"

text \<open>
  \<open>POST /chat\<close> from the initialisation of the conversation on. \<open>conv0\<close> is the list under
  \<open>conversations[session_id]\<close> after the initialisation, the later ones are the same list
  after each \<open>append\<close>; nothing between the first write and the last can raise, so the
  dict is written once, with the final list.
\<close>

definition chat_turn ::
    "env \<Rightarrow> session_id \<Rightarrow> pystr \<Rightarrow> pystr \<Rightarrow> bool \<Rightarrow> conversations \<Rightarrow> http_response \<times> conversations" where
  "chat_turn e session_id user_message system_prompt reset_conversation conversations =
     (let conv0 = (case map_of conversations session_id of
                     None \<Rightarrow> [\<lparr>role = str ''system'', content = JStr system_prompt\<rparr>]
                   | Some conv \<Rightarrow>
                       if reset_conversation
                       then [\<lparr>role = str ''system'', content = JStr system_prompt\<rparr>]
                       else conv);
          conv1 = conv0 @ [\<lparr>role = str ''user'', content = JStr user_message\<rparr>];
          generated = generate_groq_response (post e) conv1 2000;
          ai_response = (if \<not> truthy generated
                         then JStr (generate_fallback_response
                                (Some (str ''Failed to generate response from AI service'')))
                         else generated);
          conv2 = conv1 @ [\<lparr>role = str ''assistant'', content = ai_response\<rparr>];
          conv3 = trim conv2
      in ((JObj [(str ''success'', JBool True),
                 (str ''response'', ai_response),
                 (str ''session_id'', JStr session_id),
                 (str ''message_count'', JInt (int (length conv3) - 1)),
                 (str ''timestamp'', JStr (now e)),
                 (str ''response_type'', JStr (str ''comprehensive_structured''))], 200),
          dict_set session_id conv3 conversations))"

definition chat :: "env \<Rightarrow> request_body \<Rightarrow> conversations \<Rightarrow> http_response \<times> conversations" where
  "chat e req conversations0 =
     (case clean_old_conversations conversations0 of
        (Some ex, conversations) \<Rightarrow> (internal_error ex, conversations)
      | (None, conversations) \<Rightarrow>
          (case req of
             NotJson \<Rightarrow> (bad_request (str ''Request must be JSON''), conversations)
           | Unparseable ex \<Rightarrow> (internal_error ex, conversations)
           | NonObject true ex \<Rightarrow>
               if \<not> true then (bad_request (str ''No JSON data received''), conversations)
               else (internal_error ex, conversations)
           | Object data \<Rightarrow>
               if no_data data then (bad_request (str ''No JSON data received''), conversations)
               else
                 let session_id = get_default (f_session_id data) (new_uuid e);
                     user_message = strip (get_default (f_message data) []);
                     agent_name = get_default (f_agent_name data) [];
                     client_name = get_default (f_client_name data) [];
                     client_age = get_default (f_client_age data) [];
                     client_income = get_default (f_client_income data) [];
                     client_goal = get_default (f_client_goal data) [];
                     language = get_default (f_language data) (str ''English'');
                     reset_conversation = get_default (f_reset data) False
                 in if user_message = []
                    then (bad_request (str ''Message is required and cannot be empty''), conversations)
                    else chat_turn e session_id user_message
                           (generate_enhanced_system_prompt (Some agent_name) (Some client_name)
                              (Some client_age) (Some client_income) (Some client_goal) language)
                           reset_conversation conversations))"

text \<open>
  \<open>POST /api/chat\<close>: no cleaning, no check of \<open>data\<close> before \<open>data.get\<close>, no reset and no
  trimming; the session id is \<open>data.get('sessionId') or data.get('session_id', uuid)\<close>.
\<close>

definition api_chat :: "env \<Rightarrow> request_body \<Rightarrow> conversations \<Rightarrow> http_response \<times> conversations" where
  "api_chat e req conversations =
     (case req of
        NotJson \<Rightarrow> (bad_request (str ''Request must be JSON''), conversations)
      | Unparseable ex \<Rightarrow> (internal_error ex, conversations)
      | NonObject true ex \<Rightarrow> (internal_error ex, conversations)
      | Object data \<Rightarrow>
          let session_id = py_or (f_sessionId data)
                             (get_default (f_session_id data) (new_uuid e));
              user_message = strip (get_default (f_message data) []);
              language = get_default (f_language data) (str ''English'')
          in if user_message = []
             then (bad_request (str ''Message is required''), conversations)
             else
               let conv0 = (case map_of conversations session_id of
                              None \<Rightarrow> [\<lparr>role = str ''system'',
                                        content = JStr (generate_enhanced_system_prompt
                                                          None None None None None language)\<rparr>]
                            | Some conv \<Rightarrow> conv);
                   conv1 = conv0 @ [\<lparr>role = str ''user'', content = JStr user_message\<rparr>];
                   generated = generate_groq_response (post e) conv1 2000;
                   ai_response = (if \<not> truthy generated
                                  then JStr (generate_fallback_response
                                         (Some (str ''Failed to generate response'')))
                                  else generated);
                   conv2 = conv1 @ [\<lparr>role = str ''assistant'', content = ai_response\<rparr>]
               in ((JObj [(str ''success'', JBool True),
                          (str ''response'', ai_response),
                          (str ''message'', ai_response),
                          (str ''session_id'', JStr session_id),
                          (str ''timestamp'', JStr (now e))], 200),
                   dict_set session_id conv2 conversations))"

text \<open>\<open>POST /clear_conversation/<session_id>\<close>; the \<open>del\<close> is guarded, so nothing raises.\<close>

definition clear_conversation :: "session_id \<Rightarrow> conversations \<Rightarrow> http_response \<times> conversations" where
  "clear_conversation session_id conversations =
     ((JObj [(str ''success'', JBool True),
             (str ''message'', JStr (str ''Conversation cleared successfully''))], 200),
      (if dict_contains session_id conversations
       then dict_del session_id conversations
       else conversations))"

section \<open>Concrete inputs\<close>

text \<open>
  The store holding the sessions \<open>s0\<close>, \<open>s1\<close>, ... up to \<open>n\<close> of them, each with its
  system message only; a provider with one fixed outcome; the response body of the
  provider with one choice of a given content; a timeout of \<open>requests\<close>; a message list;
  an environment whose provider times out and one whose provider answers with a given
  content; the request with no member, the request the test page of the source sends and
  a request with a profile and \<open>reset\<close>; a session of a system message and \<open>n\<close> more
  messages; whether a text holds the five section headings; whether a value is a string;
  the member of a response body under a key.
\<close>

definition session_key :: "nat \<Rightarrow> session_id" where
  "session_key i = str ''s'' @ digits i"

definition sessions :: "nat \<Rightarrow> conversations" where
  "sessions n = map (\<lambda>i. (session_key i, [\<lparr>role = str ''system'', content = JStr []\<rparr>])) [0..<n]"

definition always :: "provider_outcome \<Rightarrow> message list \<Rightarrow> nat \<Rightarrow> provider_outcome" where
  "always outcome messages max_tokens = outcome"

definition chat_completion :: "json \<Rightarrow> json" where
  "chat_completion c =
     JObj [(str ''choices'', JArr [JObj [(str ''message'', JObj [(str ''content'', c)])]])]"

definition timeout_error :: py_exception where
  "timeout_error =
     \<lparr>is_Timeout = True, is_ConnectionError = False, is_RequestException = True,
      is_JSONDecodeError = False, exc_str = str ''Read timed out.''\<rparr>"

definition hello :: "message list" where
  "hello = [\<lparr>role = str ''user'', content = JStr (str ''Hello'')\<rparr>]"

definition offline :: env where
  "offline =
     \<lparr>post = always (PostRaises timeout_error), new_uuid = str ''generated-uuid'',
      now = str ''2025-01-01T00:00:00''\<rparr>"

definition answering :: "json \<Rightarrow> env" where
  "answering c = offline\<lparr>post := always (Response 200 (Inr (chat_completion c)))\<rparr>"

definition empty_request :: chat_data where
  "empty_request =
     \<lparr>f_session_id = None, f_sessionId = None, f_message = None, f_agent_name = None,
      f_client_name = None, f_client_age = None, f_client_income = None, f_client_goal = None,
      f_language = None, f_reset = None, other_keys = False\<rparr>"

definition test_page_request :: chat_data where
  "test_page_request =
     empty_request\<lparr>f_session_id := Some (str ''full-test-1''), f_message := Some (str ''Hello''),
       f_client_name := Some (str ''Test User''), f_client_age := Some (str ''25''),
       f_client_income := Some (str ''50000'')\<rparr>"

definition profile_request :: chat_data where
  "profile_request =
     empty_request\<lparr>f_session_id := Some (session_key 1), f_message := Some (str ''Hello''),
       f_agent_name := Some (str ''Asha''), f_client_name := Some (str ''Ravi''),
       f_client_income := Some (str ''50000''), f_reset := Some True\<rparr>"

definition long_session :: "nat \<Rightarrow> message list" where
  "long_session n =
     \<lparr>role = str ''system'', content = JStr []\<rparr> #
     replicate n \<lparr>role = str ''user'', content = JStr (str ''Hello'')\<rparr>"

definition has_all_sections :: "pystr \<Rightarrow> bool" where
  "has_all_sections s =
     (sublist marker_quick_summary s \<and> sublist marker_detailed_explanation s \<and>
      sublist marker_practical_examples s \<and> sublist marker_actionable_steps s \<and>
      sublist marker_related_questions s)"

fun is_str :: "json \<Rightarrow> bool" where
  "is_str (JStr s) = True"
| "is_str x = False"

definition member :: "http_response \<Rightarrow> pystr \<Rightarrow> json option" where
  "member r key = (case fst r of JObj m \<Rightarrow> map_of m key | _ \<Rightarrow> None)"

section \<open>The store: auxiliary facts\<close>

lemma dict_set_map_of: "map_of (dict_set k v d) = (map_of d)(k \<mapsto> v)"
  by (induction d) auto

lemma dict_set_keys:
  "map fst (dict_set k v d) = (if k \<in> fst ` set d then map fst d else map fst d @ [k])"
  by (induction d) auto

lemma dict_set_wf: "wf_conversations d \<Longrightarrow> wf_conversations (dict_set k v d)"
  by (simp add: wf_conversations_def dict_set_keys)

lemma del_sessions_filter:
  "set ks \<subseteq> fst ` set d \<Longrightarrow> distinct ks \<Longrightarrow>
   del_sessions ks d = (None, filter (\<lambda>p. fst p \<notin> set ks) d)"
proof (induction ks arbitrary: d)
  case Nil
  then show ?case by simp
next
  case (Cons k ks)
  have sub: "set ks \<subseteq> fst ` set (dict_del k d)"
    using Cons.prems by (force simp: dict_del_def)
  have "del_sessions (k # ks) d = del_sessions ks (dict_del k d)"
    using Cons.prems by (simp add: dict_contains_def)
  also have "\<dots> = (None, filter (\<lambda>p. fst p \<notin> set ks) (dict_del k d))"
    using Cons.IH[OF sub] Cons.prems by simp
  also have "filter (\<lambda>p. fst p \<notin> set ks) (dict_del k d) = filter (\<lambda>p. fst p \<notin> set (k # ks)) d"
    by (auto simp: dict_del_def intro: filter_cong)
  finally show ?case .
qed

lemma length_filter_keys:
  assumes d: "distinct (map fst d)" and ks: "distinct ks" and sub: "set ks \<subseteq> fst ` set d"
  shows "length (filter (\<lambda>p. fst p \<notin> set ks) d) + length ks = length d"
proof -
  have "length (filter (\<lambda>p. fst p \<notin> set ks) d) = length (filter (\<lambda>k. k \<notin> set ks) (map fst d))"
    by (simp add: filter_map comp_def)
  also have "\<dots> = card (set (map fst d) - set ks)"
    using d by (metis distinct_card distinct_filter set_filter set_diff_eq)
  also have "\<dots> = card (set (map fst d)) - card (set ks)"
    using sub by (simp add: card_Diff_subset)
  also have "\<dots> = length d - length ks"
    using distinct_card[OF d] distinct_card[OF ks] by simp
  finally have eq: "length (filter (\<lambda>p. fst p \<notin> set ks) d) = length d - length ks" .
  have "card (set ks) \<le> card (set (map fst d))"
    using sub by (intro card_mono) auto
  then have "length ks \<le> length d"
    using distinct_card[OF d] distinct_card[OF ks] by simp
  with eq show ?thesis by simp
qed

lemma sorted_keys_distinct: "wf_conversations d \<Longrightarrow> distinct (take 10 (sort (map fst d)))"
  by (simp add: wf_conversations_def distinct_take)

lemma sorted_keys_subset: "set (take 10 (sort (map fst d))) \<subseteq> fst ` set d"
  using set_take_subset[of 10 "sort (map fst d)"] by auto

lemma sorted_keys_smallest:
  assumes "wf_conversations d" and "k \<in> set (take 10 (sort (map fst d)))"
    and "k' \<in> fst ` set d" and "k' \<notin> set (take 10 (sort (map fst d)))"
  shows "k < k'"
proof -
  let ?s = "sort (map fst d)"
  have s: "sorted ?s" "distinct ?s" "set ?s = fst ` set d"
    using assms(1) by (auto simp: wf_conversations_def)
  have split: "?s = take 10 ?s @ drop 10 ?s" by simp
  have "k' \<in> set (drop 10 ?s)"
    using assms(3,4) s(3) split by (metis Un_iff set_append)
  moreover have "\<forall>x\<in>set (take 10 ?s). \<forall>y\<in>set (drop 10 ?s). x \<le> y"
    using s(1) split by (metis sorted_append)
  moreover have "set (take 10 ?s) \<inter> set (drop 10 ?s) = {}"
    using s(2) split by (metis distinct_append)
  ultimately show ?thesis
    using assms(2) by (metis disjoint_iff le_neq_trans)
qed

lemma clean_wf:
  "wf_conversations d \<Longrightarrow>
   clean_old_conversations d =
     (None, if length d > MAX_CONVERSATIONS
            then filter (\<lambda>p. fst p \<notin> set (take 10 (sort (map fst d)))) d else d)"
  unfolding clean_old_conversations_def
  using del_sessions_filter[OF sorted_keys_subset sorted_keys_distinct, of d]
  by simp

lemma clean_length:
  assumes "wf_conversations d"
  shows "length (snd (clean_old_conversations d)) =
           (if length d > MAX_CONVERSATIONS then length d - 10 else length d)"
proof (cases "length d > MAX_CONVERSATIONS")
  case True
  then have "length (take 10 (sort (map fst d))) = 10"
    by (simp add: MAX_CONVERSATIONS_def)
  moreover have "distinct (map fst d)"
    using assms by (simp add: wf_conversations_def)
  ultimately show ?thesis
    using length_filter_keys[of d "take 10 (sort (map fst d))"]
      sorted_keys_distinct[OF assms] sorted_keys_subset[of d] assms True
    by (simp add: clean_wf)
next
  case False
  with assms show ?thesis by (simp add: clean_wf)
qed

lemma clean_preserves_wf:
  "wf_conversations d \<Longrightarrow> wf_conversations (snd (clean_old_conversations d))"
  by (simp add: clean_wf) (simp add: wf_conversations_def distinct_map_filter)

lemma map_of_filter_keys:
  "map_of (filter (\<lambda>p. fst p \<notin> R) d) k = (if k \<in> R then None else map_of d k)"
  by (induction d) auto

lemma clean_map_of:
  assumes "wf_conversations d"
  shows "map_of (snd (clean_old_conversations d)) k = None \<or>
         map_of (snd (clean_old_conversations d)) k = map_of d k"
  using assms by (simp add: clean_wf map_of_filter_keys)

lemma digits_nonempty: "digits n \<noteq> []"
  by (subst digits.simps) simp

lemma digits_inj: "digits n = digits m \<Longrightarrow> n = m"
proof (induction n arbitrary: m rule: digits.induct)
  case (1 n)
  show ?case
  proof (cases "n < 10")
    case True
    show ?thesis
    proof (cases "m < 10")
      case True
      with \<open>n < 10\<close> "1.prems" show ?thesis
        by (subst (asm) digits.simps, subst (asm) (2) digits.simps) simp
    next
      case False
      with \<open>n < 10\<close> "1.prems" digits_nonempty[of "m div 10"] show ?thesis
        by (subst (asm) digits.simps, subst (asm) (2) digits.simps) simp
    qed
  next
    case False
    show ?thesis
    proof (cases "m < 10")
      case True
      with \<open>\<not> n < 10\<close> "1.prems" digits_nonempty[of "n div 10"] show ?thesis
        by (subst (asm) digits.simps, subst (asm) (2) digits.simps) simp
    next
      case m: False
      from False m "1.prems"
      have "digits (n div 10) @ [48 + n mod 10] = digits (m div 10) @ [48 + m mod 10]"
        by (subst (asm) digits.simps, subst (asm) (2) digits.simps) simp
      then have "digits (n div 10) = digits (m div 10)" and "n mod 10 = m mod 10"
        by simp_all
      with "1.IH"[OF False] have "n div 10 = m div 10" by simp
      with \<open>n mod 10 = m mod 10\<close> show ?thesis
        by (metis div_mult_mod_eq)
    qed
  qed
qed

lemma sessions_wf: "wf_conversations (sessions n)"
proof -
  have "inj_on session_key A" for A
    by (rule inj_onI) (simp add: session_key_def digits_inj)
  then show ?thesis
    by (simp add: wf_conversations_def sessions_def comp_def distinct_map)
qed

lemma sessions_length: "length (sessions n) = n"
  by (simp add: sessions_def)

lemma sessions_map_of:
  "i < n \<Longrightarrow> map_of (sessions n) (session_key i) = Some [\<lparr>role = str ''system'', content = JStr []\<rparr>]"
proof -
  assume "i < n"
  then have "(session_key i, [\<lparr>role = str ''system'', content = JStr []\<rparr>]) \<in> set (sessions n)"
    by (auto simp: sessions_def)
  then show ?thesis
    using sessions_wf[of n] by (simp add: wf_conversations_def)
qed

lemma oldest_of_101:
  "take 10 (sort (map fst (sessions 101))) =
     map session_key [0, 1, 10, 100, 11, 12, 13, 14, 15, 16]"
  by code_simp

section \<open>The store: eviction\<close>

text \<open>
  C1 (as amended). On a dict of \<open>n\<close> sessions \<open>clean_old_conversations\<close> raises nothing and
  leaves \<open>n - 10\<close> sessions when \<open>n\<close> exceeds \<open>MAX_CONVERSATIONS\<close>, and all \<open>n\<close> otherwise; so the
  count afterwards is at most \<open>MAX_CONVERSATIONS\<close> whenever the count before was at most
  \<open>MAX_CONVERSATIONS + 10\<close>.
\<close>

theorem clean_old_conversations_count:
  assumes "wf_conversations d"
  shows "fst (clean_old_conversations d) = None \<and>
         length (snd (clean_old_conversations d)) =
           (if length d > MAX_CONVERSATIONS then length d - 10 else length d) \<and>
         (length d \<le> MAX_CONVERSATIONS + 10 \<longrightarrow>
            length (snd (clean_old_conversations d)) \<le> MAX_CONVERSATIONS)"
proof -
  have "fst (clean_old_conversations d) = None"
    using assms by (simp add: clean_wf)
  moreover have "length d \<le> MAX_CONVERSATIONS + 10 \<longrightarrow>
      (if length d > MAX_CONVERSATIONS then length d - 10 else length d) \<le> MAX_CONVERSATIONS"
    by auto
  ultimately show ?thesis
    using clean_length[OF assms] by simp
qed

theorem clean_old_conversations_count_witness:
  "wf_conversations (sessions 101) \<and>
   length (sessions 101) \<le> MAX_CONVERSATIONS + 10 \<and>
   fst (clean_old_conversations (sessions 101)) = None \<and>
   length (snd (clean_old_conversations (sessions 101))) = 91"
  using clean_old_conversations_count[OF sessions_wf, of 101]
  by (simp add: sessions_wf sessions_length MAX_CONVERSATIONS_def)

text \<open>
  C1 as stated fails: a dict of 111 sessions still holds 101 after the call.
\<close>

theorem clean_old_conversations_count_counterexample:
  "wf_conversations (sessions 111) \<and>
   length (snd (clean_old_conversations (sessions 111))) = 101 \<and>
   \<not> length (snd (clean_old_conversations (sessions 111))) \<le> MAX_CONVERSATIONS"
  using clean_length[OF sessions_wf, of 111]
  by (simp add: sessions_wf sessions_length MAX_CONVERSATIONS_def)

text \<open>
  C6. On a dict of more than \<open>MAX_CONVERSATIONS\<close> sessions \<open>clean_old_conversations\<close> removes
  the sessions under the first ten keys of the sorted key list and keeps every other
  entry as it is, in place; these are ten keys of the dict, each smaller than every key
  that stays. On a dict of at most \<open>MAX_CONVERSATIONS\<close> sessions it changes nothing.
\<close>

theorem clean_old_conversations_evicts_smallest:
  assumes "wf_conversations d"
  shows "(length d > MAX_CONVERSATIONS \<longrightarrow>
            clean_old_conversations d =
              (None, filter (\<lambda>p. fst p \<notin> set (take 10 (sort (map fst d)))) d) \<and>
            set (take 10 (sort (map fst d))) \<subseteq> fst ` set d \<and>
            card (set (take 10 (sort (map fst d)))) = 10 \<and>
            (\<forall>k \<in> set (take 10 (sort (map fst d))).
               \<forall>k' \<in> fst ` set d - set (take 10 (sort (map fst d))). k < k')) \<and>
         (length d \<le> MAX_CONVERSATIONS \<longrightarrow> clean_old_conversations d = (None, d))"
proof -
  have "card (set (take 10 (sort (map fst d)))) = 10" if "length d > MAX_CONVERSATIONS"
    using that distinct_card[OF sorted_keys_distinct[OF assms]]
    by (simp add: MAX_CONVERSATIONS_def)
  moreover have "\<forall>k \<in> set (take 10 (sort (map fst d))).
      \<forall>k' \<in> fst ` set d - set (take 10 (sort (map fst d))). k < k'"
    using sorted_keys_smallest[OF assms] by blast
  ultimately show ?thesis
    using sorted_keys_subset[of d] by (simp add: clean_wf[OF assms])
qed

theorem clean_old_conversations_evicts_smallest_witness:
  "wf_conversations (sessions 101) \<and> length (sessions 101) > MAX_CONVERSATIONS \<and>
   clean_old_conversations (sessions 101) =
     (None, filter (\<lambda>p. fst p \<notin> set (map session_key [0, 1, 10, 100, 11, 12, 13, 14, 15, 16]))
              (sessions 101)) \<and>
   wf_conversations (sessions 100) \<and> length (sessions 100) \<le> MAX_CONVERSATIONS \<and>
   clean_old_conversations (sessions 100) = (None, sessions 100)"
  using clean_old_conversations_evicts_smallest[OF sessions_wf, of 101]
    clean_old_conversations_evicts_smallest[OF sessions_wf, of 100]
  by (simp add: sessions_wf sessions_length MAX_CONVERSATIONS_def oldest_of_101)

section \<open>The store: clearing a session\<close>

text \<open>
  C8. \<open>clear_conversation\<close> answers 200 with \<open>success: true\<close> whether or not the session
  exists, and leaves the dict without the session and with every other entry as it was;
  a second call on the same session id answers the same and changes nothing more.
\<close>

theorem clear_conversation_idempotent:
  "snd (fst (clear_conversation sid d)) = 200 \<and>
   member (fst (clear_conversation sid d)) (str ''success'') = Some (JBool True) \<and>
   snd (clear_conversation sid d) = filter (\<lambda>p. fst p \<noteq> sid) d \<and>
   \<not> dict_contains sid (snd (clear_conversation sid d)) \<and>
   fst (clear_conversation sid (snd (clear_conversation sid d))) = fst (clear_conversation sid d) \<and>
   snd (clear_conversation sid (snd (clear_conversation sid d))) = snd (clear_conversation sid d)"
proof -
  have keep: "filter (\<lambda>p. fst p \<noteq> sid) d = d" if "\<not> dict_contains sid d"
    using that by (induction d) (auto simp: dict_contains_def)
  have gone: "\<not> dict_contains sid (filter (\<lambda>p. fst p \<noteq> sid) d)"
    by (auto simp: dict_contains_def)
  have key: "str ''success'' \<noteq> str ''message''"
    by (simp add: str_def)
  show ?thesis
    using keep gone key by (simp add: clear_conversation_def dict_del_def member_def)
qed

section \<open>The fallback generator: structure\<close>

lemma sublist_later: "sublist x r \<Longrightarrow> sublist x (y @ r)"
  by (metis sublist_append)

lemma fallback_has_markers:
  "sublist marker_quick_summary (generate_fallback_response r)"
  "sublist marker_detailed_explanation (generate_fallback_response r)"
  "sublist marker_practical_examples (generate_fallback_response r)"
  "sublist marker_actionable_steps (generate_fallback_response r)"
  "sublist marker_related_questions (generate_fallback_response r)"
  unfolding generate_fallback_response_def Let_def
  by (intro sublist_append_rightI sublist_later)+

lemma fallback_nonempty: "generate_fallback_response r \<noteq> []"
  by (simp add: generate_fallback_response_def Let_def marker_quick_summary_def str_def)

text \<open>
  C7. \<open>generate_fallback_response\<close> is a function of its argument alone. For every
  argument, \<open>None\<close> included, its result contains the five section headings; it starts with
  the quick-summary heading, then a line holding the reason, then a blank line and the
  next heading. The line holds the supplied reason, or the default message when none
  (or the empty string) is supplied.
\<close>

theorem generate_fallback_response_structure:
  "sublist marker_quick_summary (generate_fallback_response reason) \<and>
   sublist marker_detailed_explanation (generate_fallback_response reason) \<and>
   sublist marker_practical_examples (generate_fallback_response reason) \<and>
   sublist marker_actionable_steps (generate_fallback_response reason) \<and>
   sublist marker_related_questions (generate_fallback_response reason) \<and>
   (\<exists>rest. generate_fallback_response reason =
      marker_quick_summary @ [10] @ py_or reason default_fallback_message @ [10, 10] @
      marker_detailed_explanation @ rest) \<and>
   sublist (case reason of None \<Rightarrow> default_fallback_message | Some m \<Rightarrow> m)
      (py_or reason default_fallback_message)"
proof -
  have "\<exists>rest. generate_fallback_response reason =
      marker_quick_summary @ [10] @ py_or reason default_fallback_message @ [10, 10] @
      marker_detailed_explanation @ rest"
    unfolding generate_fallback_response_def Let_def by simp
  moreover have "sublist (case reason of None \<Rightarrow> default_fallback_message | Some m \<Rightarrow> m)
      (py_or reason default_fallback_message)"
    by (cases reason) auto
  ultimately show ?thesis
    using fallback_has_markers[of reason] by blast
qed

section \<open>The gateway client: classification\<close>

lemma generate_groq_response_cases:
  "(\<exists>reason. generate_groq_response provider msgs n = JStr (generate_fallback_response (Some reason))) \<or>
   (\<exists>result k. provider msgs n = Response 200 (Inr result) \<and> has_choices result = Inr True \<and>
      first_choice_content result = Inr (generate_groq_response provider msgs n) \<and>
      py_len (generate_groq_response provider msgs n) = Inr k)"
proof (cases "groq_request (provider msgs n)")
  case (Inl e)
  then show ?thesis
    by (auto simp: generate_groq_response_def groq_except_def)
next
  case (Inr r)
  show ?thesis
  proof (cases "provider msgs n")
    case (PostRaises e)
    with Inr show ?thesis by (simp add: groq_request_def)
  next
    case (Response s body)
    show ?thesis
    proof (cases "s = 200")
      case False
      with Inr Response show ?thesis
        by (auto simp: generate_groq_response_def groq_request_def split: if_splits)
    next
      case True
      with Inr Response obtain result where body: "body = Inr result"
        by (cases body) (auto simp: groq_request_def)
      from Inr Response True body obtain ok where ok: "has_choices result = Inr ok"
        by (cases "has_choices result") (auto simp: groq_request_def)
      show ?thesis
      proof (cases ok)
        case False
        with Inr Response True body ok show ?thesis
          by (auto simp: generate_groq_response_def groq_request_def)
      next
        case ok_true: True
        with Inr Response True body ok obtain c where c: "first_choice_content result = Inr c"
          by (cases "first_choice_content result") (auto simp: groq_request_def)
        with Inr Response True body ok ok_true obtain k where k: "py_len c = Inr k"
          by (cases "py_len c") (auto simp: groq_request_def)
        with Inr Response True body ok ok_true c have "r = c"
          by (simp add: groq_request_def)
        with Inr Response True body ok ok_true c k show ?thesis
          by (simp add: generate_groq_response_def)
      qed
    qed
  qed
qed

text \<open>
  C3 (as amended). \<open>generate_groq_response\<close> raises nothing: whatever the provider does,
  it returns a value. With status 200, a body that parses, a non-empty \<open>choices\<close>
  and a first choice whose message content has a length, it returns that content as it
  is (a string when the content is a string). With status 200 and no
  choices, with status 401, 429, 500 or more, or any other status, it returns the
  fallback template with the reason of that case. When \<open>requests.post\<close>, \<open>response.json()\<close>
  or the walk through the body raises, it returns the fallback template with the reason
  of the first \<open>except\<close> clause the exception is an instance of: timeout, connection
  error, other request exception, JSON decode error, anything else. In every case the
  result is a fallback template or the first choice's content.
\<close>

theorem generate_groq_response_classified:
  "(provider msgs n = Response 200 (Inr result) \<and> has_choices result = Inr True \<and>
      first_choice_content result = Inr c \<and> py_len c = Inr k
      \<longrightarrow> generate_groq_response provider msgs n = c) \<and>
   (provider msgs n = Response 200 (Inr result) \<and> has_choices result = Inr False
      \<longrightarrow> generate_groq_response provider msgs n =
            JStr (generate_fallback_response (Some (str ''API returned no response choices'')))) \<and>
   (provider msgs n = Response 401 body
      \<longrightarrow> generate_groq_response provider msgs n =
            JStr (generate_fallback_response
                    (Some (str ''API authentication failed - please check API key'')))) \<and>
   (provider msgs n = Response 429 body
      \<longrightarrow> generate_groq_response provider msgs n =
            JStr (generate_fallback_response
                    (Some (str ''API rate limit exceeded - please try again later'')))) \<and>
   (provider msgs n = Response s body \<and> s \<ge> 500
      \<longrightarrow> generate_groq_response provider msgs n =
            JStr (generate_fallback_response (Some (str ''API server error - please try again'')))) \<and>
   (provider msgs n = Response s body \<and> s \<noteq> 200 \<and> s \<noteq> 401 \<and> s \<noteq> 429 \<and> s < 500
      \<longrightarrow> generate_groq_response provider msgs n =
            JStr (generate_fallback_response (Some (str ''API Error '' @ str_int s)))) \<and>
   (groq_request (provider msgs n) = Inl e
      \<longrightarrow> generate_groq_response provider msgs n =
            JStr (generate_fallback_response (Some
              (if is_Timeout e
               then str ''The AI is taking longer than usual to respond. Please try again.''
               else if is_ConnectionError e
               then str ''Unable to connect to AI service. Please check your internet connection.''
               else if is_RequestException e then str ''Network error: '' @ exc_str e
               else if is_JSONDecodeError e then str ''Invalid response format from AI service''
               else str ''Unexpected error: '' @ exc_str e)))) \<and>
   (provider msgs n = PostRaises e \<or> provider msgs n = Response 200 (Inl e) \<or>
    provider msgs n = Response 200 (Inr result) \<and>
      (has_choices result = Inl e \<or>
       has_choices result = Inr True \<and>
         (first_choice_content result = Inl e \<or>
          first_choice_content result = Inr c \<and> py_len c = Inl e))
      \<longrightarrow> groq_request (provider msgs n) = Inl e) \<and>
   ((\<exists>reason. generate_groq_response provider msgs n =
        JStr (generate_fallback_response (Some reason))) \<or>
    (\<exists>result' k'. provider msgs n = Response 200 (Inr result') \<and> has_choices result' = Inr True \<and>
        first_choice_content result' = Inr (generate_groq_response provider msgs n) \<and>
        py_len (generate_groq_response provider msgs n) = Inr k'))"
proof -
  have ok: "provider msgs n = Response 200 (Inr result) \<and> has_choices result = Inr True \<and>
      first_choice_content result = Inr c \<and> py_len c = Inr k
      \<longrightarrow> generate_groq_response provider msgs n = c"
    by (simp add: generate_groq_response_def groq_request_def)
  have none: "provider msgs n = Response 200 (Inr result) \<and> has_choices result = Inr False
      \<longrightarrow> generate_groq_response provider msgs n =
            JStr (generate_fallback_response (Some (str ''API returned no response choices'')))"
    by (simp add: generate_groq_response_def groq_request_def)
  have status: "provider msgs n = Response s body \<Longrightarrow> s \<noteq> 200 \<Longrightarrow>
      generate_groq_response provider msgs n =
        JStr (generate_fallback_response (Some
          (if s = 401 then str ''API authentication failed - please check API key''
           else if s = 429 then str ''API rate limit exceeded - please try again later''
           else if s \<ge> 500 then str ''API server error - please try again''
           else str ''API Error '' @ str_int s)))" for s body
    by (simp add: generate_groq_response_def groq_request_def)
  have raised: "groq_request (provider msgs n) = Inl e
      \<longrightarrow> generate_groq_response provider msgs n =
            JStr (generate_fallback_response (Some
              (if is_Timeout e
               then str ''The AI is taking longer than usual to respond. Please try again.''
               else if is_ConnectionError e
               then str ''Unable to connect to AI service. Please check your internet connection.''
               else if is_RequestException e then str ''Network error: '' @ exc_str e
               else if is_JSONDecodeError e then str ''Invalid response format from AI service''
               else str ''Unexpected error: '' @ exc_str e)))"
    by (simp add: generate_groq_response_def groq_except_def)
  have raises: "provider msgs n = PostRaises e \<or> provider msgs n = Response 200 (Inl e) \<or>
    provider msgs n = Response 200 (Inr result) \<and>
      (has_choices result = Inl e \<or>
       has_choices result = Inr True \<and>
         (first_choice_content result = Inl e \<or>
          first_choice_content result = Inr c \<and> py_len c = Inl e))
      \<longrightarrow> groq_request (provider msgs n) = Inl e"
    by (auto simp: groq_request_def)
  have c401: "provider msgs n = Response 401 body
      \<longrightarrow> generate_groq_response provider msgs n =
            JStr (generate_fallback_response
                    (Some (str ''API authentication failed - please check API key'')))"
    using status[of 401 body] by simp
  have c429: "provider msgs n = Response 429 body
      \<longrightarrow> generate_groq_response provider msgs n =
            JStr (generate_fallback_response
                    (Some (str ''API rate limit exceeded - please try again later'')))"
    using status[of 429 body] by simp
  have c500: "provider msgs n = Response s body \<and> s \<ge> 500
      \<longrightarrow> generate_groq_response provider msgs n =
            JStr (generate_fallback_response (Some (str ''API server error - please try again'')))"
    using status[of s body] by simp
  have other: "provider msgs n = Response s body \<and> s \<noteq> 200 \<and> s \<noteq> 401 \<and> s \<noteq> 429 \<and> s < 500
      \<longrightarrow> generate_groq_response provider msgs n =
            JStr (generate_fallback_response (Some (str ''API Error '' @ str_int s)))"
    using status[of s body] by simp
  show ?thesis
    by (intro conjI) (rule ok none c401 c429 c500 other raised raises
      generate_groq_response_cases)+
qed

theorem generate_groq_response_classified_witness:
  "has_choices (chat_completion (JStr (str ''hi''))) = Inr True \<and>
   first_choice_content (chat_completion (JStr (str ''hi''))) = Inr (JStr (str ''hi'')) \<and>
   py_len (JStr (str ''hi'')) = Inr 2 \<and>
   generate_groq_response (always (Response 200 (Inr (chat_completion (JStr (str ''hi'')))))) hello 2000 =
     JStr (str ''hi'') \<and>
   generate_groq_response (always (Response 200 (Inr (JObj [])))) hello 2000 =
     JStr (generate_fallback_response (Some (str ''API returned no response choices''))) \<and>
   generate_groq_response (always (Response 503 (Inr JNull))) hello 2000 =
     JStr (generate_fallback_response (Some (str ''API server error - please try again''))) \<and>
   generate_groq_response (always (PostRaises timeout_error)) hello 2000 =
     JStr (generate_fallback_response
             (Some (str ''The AI is taking longer than usual to respond. Please try again.'')))"
proof -
  have keys: "str ''choices'' \<noteq> str ''message''" "str ''message'' \<noteq> str ''content''"
    by (simp_all add: str_def)
  have a: "has_choices (chat_completion (JStr (str ''hi''))) = Inr True"
    by (simp add: has_choices_def chat_completion_def dict_contains_def)
  have b: "first_choice_content (chat_completion (JStr (str ''hi''))) = Inr (JStr (str ''hi''))"
    by (simp add: first_choice_content_def chat_completion_def)
  have c: "py_len (JStr (str ''hi'')) = Inr 2"
    by (simp add: str_def)
  have d: "has_choices (JObj []) = Inr False"
    by (simp add: has_choices_def dict_contains_def)
  have e: "groq_request (PostRaises timeout_error) = Inl timeout_error"
    by (simp add: groq_request_def)
  show ?thesis
    using a b c d e
      generate_groq_response_classified[where provider = "always (Response 200 (Inr (chat_completion (JStr (str ''hi'')))))"
        and msgs = hello and n = 2000 and result = "chat_completion (JStr (str ''hi''))"
        and c = "JStr (str ''hi'')" and k = 2 and s = 200]
      generate_groq_response_classified[where provider = "always (Response 200 (Inr (JObj [])))"
        and msgs = hello and n = 2000 and result = "JObj []" and s = 200]
      generate_groq_response_classified[where provider = "always (Response 503 (Inr JNull))"
        and msgs = hello and n = 2000 and body = "Inr JNull" and s = 503]
      generate_groq_response_classified[where provider = "always (PostRaises timeout_error)"
        and msgs = hello and n = 2000 and e = timeout_error and s = 200]
    by (simp add: always_def timeout_error_def)
qed

text \<open>
  C3 as stated fails: when the content of the first choice is a JSON array, the array is
  returned, not a string.
\<close>

theorem generate_groq_response_classified_counterexample:
  "generate_groq_response
     (always (Response 200 (Inr (chat_completion (JArr [JStr (str ''hi'')]))))) hello 2000 =
     JArr [JStr (str ''hi'')] \<and>
   \<not> is_str (generate_groq_response
     (always (Response 200 (Inr (chat_completion (JArr [JStr (str ''hi'')]))))) hello 2000)"
proof -
  have keys: "str ''choices'' \<noteq> str ''message''" "str ''message'' \<noteq> str ''content''"
    by (simp_all add: str_def)
  have "generate_groq_response
     (always (Response 200 (Inr (chat_completion (JArr [JStr (str ''hi'')]))))) hello 2000 =
     JArr [JStr (str ''hi'')]"
    by (simp add: generate_groq_response_def groq_request_def always_def has_choices_def
        first_choice_content_def chat_completion_def dict_contains_def)
  then show ?thesis by simp
qed

section \<open>The chat endpoints: auxiliary facts\<close>

lemma strip_empty: "strip s = [] \<longleftrightarrow> (\<forall>c\<in>set s. is_space c)"
proof -
  have "(\<forall>c\<in>set (dropWhile is_space s). is_space c) \<longleftrightarrow> (\<forall>c\<in>set s. is_space c)"
  proof
    assume all: "\<forall>c\<in>set (dropWhile is_space s). is_space c"
    have "dropWhile is_space s = []"
    proof (rule ccontr)
      assume ne: "dropWhile is_space s \<noteq> []"
      then have "\<not> is_space (hd (dropWhile is_space s))"
        by (rule hd_dropWhile)
      moreover have "hd (dropWhile is_space s) \<in> set (dropWhile is_space s)"
        using ne by simp
      ultimately show False using all by blast
    qed
    then show "\<forall>c\<in>set s. is_space c"
      by (simp add: dropWhile_eq_Nil_conv)
  next
    assume "\<forall>c\<in>set s. is_space c"
    then show "\<forall>c\<in>set (dropWhile is_space s). is_space c"
      by (meson set_dropWhileD)
  qed
  then show ?thesis
    by (simp add: strip_def dropWhile_eq_Nil_conv)
qed

lemma no_data_message: "no_data data \<Longrightarrow> f_message data = None"
  by (simp add: no_data_def)

lemma chat_rejects:
  assumes "wf_conversations d" and "strip (get_default (f_message data) []) = []"
  shows "chat e (Object data) d =
     (bad_request (if no_data data then str ''No JSON data received''
                   else str ''Message is required and cannot be empty''),
      snd (clean_old_conversations d))"
  using assms by (simp add: chat_def clean_wf Let_def)

lemma chat_accepts:
  assumes "wf_conversations d" and "strip (get_default (f_message data) []) \<noteq> []"
  shows "chat e (Object data) d =
     chat_turn e (get_default (f_session_id data) (new_uuid e))
       (strip (get_default (f_message data) []))
       (generate_enhanced_system_prompt
          (Some (get_default (f_agent_name data) [])) (Some (get_default (f_client_name data) []))
          (Some (get_default (f_client_age data) [])) (Some (get_default (f_client_income data) []))
          (Some (get_default (f_client_goal data) []))
          (get_default (f_language data) (str ''English'')))
       (get_default (f_reset data) False)
       (snd (clean_old_conversations d))"
proof -
  have "\<not> no_data data"
    using assms(2) no_data_message[of data] by (auto simp: strip_def)
  then show ?thesis
    using assms by (simp add: chat_def clean_wf Let_def)
qed

lemma truthy_fallback: "truthy (JStr (generate_fallback_response r))"
  by (simp add: fallback_nonempty)

section \<open>The chat endpoint: rejected requests\<close>

text \<open>
  C9 (as amended). A \<open>POST /chat\<close> whose body is an object with the message absent, empty
  or made of whitespace only is answered with status 400 and \<open>success: false\<close>. The
  request creates no entry and changes the messages of none: the dict afterwards is the
  dict as \<open>clean_old_conversations\<close>, run at the start of the handler, leaves it. So the
  dict is unchanged when it held at most \<open>MAX_CONVERSATIONS\<close> sessions, and otherwise every
  entry, that of the given session id included, is either as before or evicted.
\<close>

theorem chat_empty_message_rejected:
  assumes "wf_conversations d"
    and "\<forall>c \<in> set (get_default (f_message data) []). is_space c"
  shows "snd (fst (chat e (Object data) d)) = 400 \<and>
         member (fst (chat e (Object data) d)) (str ''success'') = Some (JBool False) \<and>
         snd (chat e (Object data) d) = snd (clean_old_conversations d) \<and>
         (length d \<le> MAX_CONVERSATIONS \<longrightarrow> snd (chat e (Object data) d) = d) \<and>
         (map_of (snd (chat e (Object data) d)) k = None \<or>
          map_of (snd (chat e (Object data) d)) k = map_of d k)"
proof -
  have blank: "strip (get_default (f_message data) []) = []"
    using assms(2) by (simp add: strip_empty)
  have key: "str ''success'' \<noteq> str ''error''"
    by (simp add: str_def)
  have "length d \<le> MAX_CONVERSATIONS \<longrightarrow> snd (clean_old_conversations d) = d"
    using assms(1) by (simp add: clean_wf)
  then show ?thesis
    using key clean_map_of[OF assms(1), of k]
    by (simp add: chat_rejects[OF assms(1) blank] bad_request_def member_def)
qed

theorem chat_empty_message_rejected_witness:
  "wf_conversations (sessions 3) \<and>
   list_all is_space (get_default
       (f_message (empty_request\<lparr>f_session_id := Some (session_key 1), f_message := Some (str ''  '')\<rparr>))
       []) \<and>
   snd (fst (chat offline
     (Object (empty_request\<lparr>f_session_id := Some (session_key 1), f_message := Some (str ''  '')\<rparr>))
     (sessions 3))) = 400 \<and>
   snd (chat offline
     (Object (empty_request\<lparr>f_session_id := Some (session_key 1), f_message := Some (str ''  '')\<rparr>))
     (sessions 3)) = sessions 3"
proof -
  have blank: "\<forall>c \<in> set (get_default
       (f_message (empty_request\<lparr>f_session_id := Some (session_key 1), f_message := Some (str ''  '')\<rparr>))
       []). is_space c"
    by (simp add: str_def is_space_def)
  show ?thesis
    using blank chat_empty_message_rejected[OF sessions_wf[of 3] blank, where e = offline and k = "session_key 1"]
    by (simp add: sessions_wf sessions_length MAX_CONVERSATIONS_def clean_wf list_all_iff)
qed

text \<open>
  C9 as stated fails: with 101 sessions in the dict, a request with an empty message for
  the session \<open>s0\<close> is answered with 400 and the entry of \<open>s0\<close> is gone afterwards.
\<close>

theorem chat_empty_message_rejected_counterexample:
  "snd (fst (chat offline
     (Object (empty_request\<lparr>f_session_id := Some (session_key 0), f_message := Some []\<rparr>))
     (sessions 101))) = 400 \<and>
   map_of (sessions 101) (session_key 0) = Some [\<lparr>role = str ''system'', content = JStr []\<rparr>] \<and>
   map_of (snd (chat offline
     (Object (empty_request\<lparr>f_session_id := Some (session_key 0), f_message := Some []\<rparr>))
     (sessions 101))) (session_key 0) = None"
proof -
  have blank: "strip (get_default
       (f_message (empty_request\<lparr>f_session_id := Some (session_key 0), f_message := Some []\<rparr>)) []) = []"
    by (simp add: strip_def)
  have gone: "map_of (snd (clean_old_conversations (sessions 101))) (session_key 0) = None"
  proof -
    have "session_key 0 \<in> set (take 10 (sort (map fst (sessions 101))))"
      unfolding oldest_of_101 by simp
    moreover have "snd (clean_old_conversations (sessions 101)) =
        filter (\<lambda>p. fst p \<notin> set (take 10 (sort (map fst (sessions 101))))) (sessions 101)"
      by (simp add: clean_wf[OF sessions_wf] sessions_length MAX_CONVERSATIONS_def)
    ultimately show ?thesis
      by (simp only: map_of_filter_keys if_True)
  qed
  have "map_of (sessions 101) (session_key 0) = Some [\<lparr>role = str ''system'', content = JStr []\<rparr>]"
    by (rule sessions_map_of) simp
  then show ?thesis
    using gone by (simp add: chat_rejects[OF sessions_wf blank] bad_request_def)
qed

section \<open>The chat endpoint: accepted requests\<close>

lemma response_keys:
  "str ''response'' \<noteq> str ''success''" "str ''success'' \<noteq> str ''response''"
  by (simp_all add: str_def)

lemma chat_turn_status:
  "snd (fst (chat_turn e sid um sp reset d)) = 200 \<and>
   member (fst (chat_turn e sid um sp reset d)) (str ''success'') = Some (JBool True)"
  by (simp add: chat_turn_def Let_def member_def)

lemma chat_turn_response:
  "member (fst (chat_turn e sid um sp reset d)) (str ''response'') =
     Some (let conv0 = (case map_of d sid of
                          None \<Rightarrow> [\<lparr>role = str ''system'', content = JStr sp\<rparr>]
                        | Some conv \<Rightarrow>
                            if reset then [\<lparr>role = str ''system'', content = JStr sp\<rparr>] else conv);
               generated = generate_groq_response (post e)
                 (conv0 @ [\<lparr>role = str ''user'', content = JStr um\<rparr>]) 2000
           in if \<not> truthy generated
              then JStr (generate_fallback_response
                     (Some (str ''Failed to generate response from AI service'')))
              else generated)"
  using response_keys by (simp add: chat_turn_def Let_def member_def)

lemma chat_turn_store:
  "\<exists>x. snd (chat_turn e sid um sp reset d) =
     dict_set sid
       (trim (((case map_of d sid of
                  None \<Rightarrow> [\<lparr>role = str ''system'', content = JStr sp\<rparr>]
                | Some conv \<Rightarrow>
                    if reset then [\<lparr>role = str ''system'', content = JStr sp\<rparr>] else conv) @
               [\<lparr>role = str ''user'', content = JStr um\<rparr>]) @
              [\<lparr>role = str ''assistant'', content = x\<rparr>])) d"
  unfolding chat_turn_def Let_def snd_conv by (rule exI) (rule refl)

lemma chat_turn_session:
  "\<exists>a. role a = str ''assistant'' \<and>
     map_of (snd (chat_turn e sid um sp reset d)) sid =
       Some (trim ((case map_of d sid of
                      None \<Rightarrow> [\<lparr>role = str ''system'', content = JStr sp\<rparr>]
                    | Some conv \<Rightarrow>
                        if reset then [\<lparr>role = str ''system'', content = JStr sp\<rparr>] else conv) @
                   [\<lparr>role = str ''user'', content = JStr um\<rparr>, a]))"
proof -
  obtain x where "snd (chat_turn e sid um sp reset d) =
     dict_set sid
       (trim (((case map_of d sid of
                  None \<Rightarrow> [\<lparr>role = str ''system'', content = JStr sp\<rparr>]
                | Some conv \<Rightarrow>
                    if reset then [\<lparr>role = str ''system'', content = JStr sp\<rparr>] else conv) @
               [\<lparr>role = str ''user'', content = JStr um\<rparr>]) @
              [\<lparr>role = str ''assistant'', content = x\<rparr>])) d"
    using chat_turn_store by blast
  then show ?thesis
    by (intro exI[of _ "\<lparr>role = str ''assistant'', content = x\<rparr>"]) (simp add: dict_set_map_of)
qed




text \<open>
  C4 (as amended). A \<open>POST /chat\<close> with a non-empty message is answered with status 200,
  \<open>success: true\<close> and a \<open>response\<close> that is not empty: the value the gateway client
  returns for the session's messages with the user message appended, or, when that value
  is empty, the fallback template. When the provider call for these messages succeeds
  with a first choice whose content is not empty, the response is that content, passed on
  as it came. When the content is empty, and whenever the call does not succeed (no
  choices, an error status, a raised exception, a body without the content), the response
  is a fallback template, which holds the five section headings.
\<close>

theorem chat_response_structure:
  assumes "wf_conversations d"
    and "um = strip (get_default (f_message data) [])" and "um \<noteq> []"
    and "sid = get_default (f_session_id data) (new_uuid e)"
    and "prompt = generate_enhanced_system_prompt
          (Some (get_default (f_agent_name data) [])) (Some (get_default (f_client_name data) []))
          (Some (get_default (f_client_age data) [])) (Some (get_default (f_client_income data) []))
          (Some (get_default (f_client_goal data) []))
          (get_default (f_language data) (str ''English''))"
    and "conv0 = (case map_of (snd (clean_old_conversations d)) sid of
                    None \<Rightarrow> [\<lparr>role = str ''system'', content = JStr prompt\<rparr>]
                  | Some conv \<Rightarrow>
                      if get_default (f_reset data) False
                      then [\<lparr>role = str ''system'', content = JStr prompt\<rparr>]
                      else conv)"
    and "msgs = conv0 @ [\<lparr>role = str ''user'', content = JStr um\<rparr>]"
    and "g = generate_groq_response (post e) msgs 2000"
    and "r = (if \<not> truthy g
              then JStr (generate_fallback_response
                     (Some (str ''Failed to generate response from AI service'')))
              else g)"
  shows "snd (fst (chat e (Object data) d)) = 200 \<and>
         member (fst (chat e (Object data) d)) (str ''success'') = Some (JBool True) \<and>
         member (fst (chat e (Object data) d)) (str ''response'') = Some r \<and>
         truthy r \<and>
         (post e msgs 2000 = Response 200 (Inr result) \<and> has_choices result = Inr True \<and>
            first_choice_content result = Inr c \<and> py_len c = Inr k \<and> truthy c
            \<longrightarrow> r = c) \<and>
         (post e msgs 2000 = Response 200 (Inr result) \<and> has_choices result = Inr True \<and>
            first_choice_content result = Inr c \<and> py_len c = Inr k \<and> \<not> truthy c
            \<longrightarrow> r = JStr (generate_fallback_response
                           (Some (str ''Failed to generate response from AI service'')))) \<and>
         (\<not> (\<exists>result' c' k'. post e msgs 2000 = Response 200 (Inr result') \<and>
                has_choices result' = Inr True \<and> first_choice_content result' = Inr c' \<and>
                py_len c' = Inr k')
            \<longrightarrow> (\<exists>reason. r = JStr (generate_fallback_response (Some reason)))) \<and>
         (\<forall>reason. r = JStr (generate_fallback_response (Some reason))
            \<longrightarrow> has_all_sections (generate_fallback_response (Some reason)))"
proof -
  have ne: "strip (get_default (f_message data) []) \<noteq> []"
    using assms(2,3) by simp
  have c: "chat e (Object data) d =
      chat_turn e sid um prompt (get_default (f_reset data) False) (snd (clean_old_conversations d))"
    unfolding chat_accepts[OF assms(1) ne] using assms(2,4,5) by simp
  have status: "snd (fst (chat e (Object data) d)) = 200 \<and>
      member (fst (chat e (Object data) d)) (str ''success'') = Some (JBool True)"
    unfolding c by (rule chat_turn_status)
  have returned: "member (fst (chat e (Object data) d)) (str ''response'') = Some r"
    unfolding c chat_turn_response using assms(6,7,8,9) by (simp add: Let_def)
  have nonempty: "truthy r"
    using assms(9) by (simp add: fallback_nonempty)
  have content: "post e msgs 2000 = Response 200 (Inr result) \<and> has_choices result = Inr True \<and>
      first_choice_content result = Inr c \<and> py_len c = Inr k \<longrightarrow> g = c"
    unfolding assms(8) by (simp add: generate_groq_response_def groq_request_def)
  have failure: "\<not> (\<exists>result' c' k'. post e msgs 2000 = Response 200 (Inr result') \<and>
        has_choices result' = Inr True \<and> first_choice_content result' = Inr c' \<and>
        py_len c' = Inr k')
      \<longrightarrow> (\<exists>reason. g = JStr (generate_fallback_response (Some reason)))"
    using generate_groq_response_cases[of "post e" msgs 2000] unfolding assms(8) by blast
  have failure_r: "\<not> (\<exists>result' c' k'. post e msgs 2000 = Response 200 (Inr result') \<and>
        has_choices result' = Inr True \<and> first_choice_content result' = Inr c' \<and>
        py_len c' = Inr k')
      \<longrightarrow> (\<exists>reason. r = JStr (generate_fallback_response (Some reason)))"
    using failure assms(9) by auto
  have sections: "\<forall>reason. r = JStr (generate_fallback_response (Some reason))
      \<longrightarrow> has_all_sections (generate_fallback_response (Some reason))"
    by (simp add: has_all_sections_def fallback_has_markers)
  show ?thesis
    using status returned nonempty content failure_r sections assms(9) by auto
qed

theorem chat_response_structure_witness:
  "wf_conversations (sessions 3) \<and>
   strip (get_default (f_message
     (empty_request\<lparr>f_session_id := Some (session_key 1), f_message := Some (str ''Hello'')\<rparr>)) []) \<noteq> [] \<and>
   snd (fst (chat offline
     (Object (empty_request\<lparr>f_session_id := Some (session_key 1), f_message := Some (str ''Hello'')\<rparr>))
     (sessions 3))) = 200 \<and>
   member (fst (chat offline
     (Object (empty_request\<lparr>f_session_id := Some (session_key 1), f_message := Some (str ''Hello'')\<rparr>))
     (sessions 3))) (str ''success'') = Some (JBool True) \<and>
   member (fst (chat offline
     (Object (empty_request\<lparr>f_session_id := Some (session_key 1), f_message := Some (str ''Hello'')\<rparr>))
     (sessions 3))) (str ''response'') =
     Some (JStr (generate_fallback_response (Some
       (str ''The AI is taking longer than usual to respond. Please try again.'')))) \<and>
   has_all_sections (generate_fallback_response (Some
       (str ''The AI is taking longer than usual to respond. Please try again.'')))"
proof -
  have st: "strip (str ''Hello'') = str ''Hello''"
    by (simp add: strip_def str_def is_space_def)
  have um: "strip (get_default (f_message
     (empty_request\<lparr>f_session_id := Some (session_key 1), f_message := Some (str ''Hello'')\<rparr>)) []) =
     str ''Hello''"
    by (simp add: st)
  have h3: "str ''Hello'' \<noteq> []"
    by (simp add: str_def)
  have g: "generate_groq_response (post offline) msgs 2000 =
      JStr (generate_fallback_response (Some
        (str ''The AI is taking longer than usual to respond. Please try again.'')))" for msgs
    by (simp add: generate_groq_response_def groq_request_def groq_except_def offline_def
        always_def timeout_error_def)
  have r: "JStr (generate_fallback_response (Some
        (str ''The AI is taking longer than usual to respond. Please try again.''))) =
      (if \<not> truthy (generate_groq_response (post offline) msgs 2000)
       then JStr (generate_fallback_response
              (Some (str ''Failed to generate response from AI service'')))
       else generate_groq_response (post offline) msgs 2000)" for msgs
    unfolding g by (simp add: fallback_nonempty)
  note inst = chat_response_structure[OF sessions_wf[of 3] um[symmetric] h3 refl refl refl refl refl r]
  show ?thesis
    using h3 inst[THEN conjunct1] inst[THEN conjunct2, THEN conjunct1]
      inst[THEN conjunct2, THEN conjunct2, THEN conjunct1]
      inst[THEN conjunct2, THEN conjunct2, THEN conjunct2, THEN conjunct2, THEN conjunct2,
        THEN conjunct2, THEN conjunct2]
    by (simp add: sessions_wf um st)
qed

text \<open>
  C4 as stated fails: when the provider answers \<open>hi\<close>, the response is \<open>hi\<close>, which holds
  none of the section headings.
\<close>

theorem chat_response_structure_counterexample:
  "member (fst (chat (answering (JStr (str ''hi'')))
     (Object (empty_request\<lparr>f_session_id := Some (session_key 1), f_message := Some (str ''Hello'')\<rparr>))
     [])) (str ''response'') = Some (JStr (str ''hi'')) \<and>
   \<not> sublist marker_quick_summary (str ''hi'') \<and>
   \<not> has_all_sections (str ''hi'')"
proof -
  have st: "strip (str ''Hello'') = str ''Hello''"
    by (simp add: strip_def str_def is_space_def)
  have h1: "wf_conversations []"
    by (simp add: wf_conversations_def)
  have h2: "strip (get_default (f_message
     (empty_request\<lparr>f_session_id := Some (session_key 1), f_message := Some (str ''Hello'')\<rparr>)) []) \<noteq> []"
    by (simp add: st) (simp add: str_def)
  have keys: "str ''choices'' \<noteq> str ''message''" "str ''message'' \<noteq> str ''content''"
    by (simp_all add: str_def)
  have g: "generate_groq_response (post (answering (JStr (str ''hi'')))) msgs 2000 = JStr (str ''hi'')" for msgs
    using keys
    by (simp add: generate_groq_response_def groq_request_def always_def has_choices_def
        first_choice_content_def chat_completion_def dict_contains_def answering_def)
  have t: "truthy (JStr (str ''hi''))"
    by (simp add: str_def)
  have n: "\<not> sublist marker_quick_summary (str ''hi'')"
    by (simp add: marker_quick_summary_def str_def sublist_code)
  have "member (fst (chat (answering (JStr (str ''hi'')))
     (Object (empty_request\<lparr>f_session_id := Some (session_key 1), f_message := Some (str ''Hello'')\<rparr>))
     [])) (str ''response'') = Some (JStr (str ''hi''))"
    unfolding chat_accepts[OF h1 h2] chat_turn_response Let_def g
    using t by simp
  then show ?thesis
    using n by (simp add: has_all_sections_def)
qed

section \<open>The prompt composer and session creation\<close>

lemma sublist_here3: "sublist (a @ b @ c) (a @ b @ c @ r)"
  by (metis append.assoc sublist_append_rightI)

lemma sublist_here4: "sublist (a @ b @ c @ d) (a @ b @ c @ d @ r)"
  by (metis append.assoc sublist_append_rightI)

lemma prompt_with_profile:
  assumes "agent \<noteq> []" and "client \<noteq> []"
  shows "sublist (str ''- **Gromo Agent**: '' @ agent @ [10])
           (generate_enhanced_system_prompt (Some agent) (Some client) (Some age) (Some income) (Some goal) language)"
    and "sublist (str ''- **Client**: '' @ client @ [10])
           (generate_enhanced_system_prompt (Some agent) (Some client) (Some age) (Some income) (Some goal) language)"
    and "sublist (str ''- **Age**: '' @ py_or (Some age) (str ''Not specified'') @ [10])
           (generate_enhanced_system_prompt (Some agent) (Some client) (Some age) (Some income) (Some goal) language)"
    and "sublist (str ''- **Monthly Income**: '' @ [0x20B9] @ py_or (Some income) (str ''Not specified'') @ [10])
           (generate_enhanced_system_prompt (Some agent) (Some client) (Some age) (Some income) (Some goal) language)"
    and "sublist (str ''- **Goal**: '' @ py_or (Some goal) (str ''General financial guidance'') @ [10])
           (generate_enhanced_system_prompt (Some agent) (Some client) (Some age) (Some income) (Some goal) language)"
    and "sublist (str ''- **Language**: '' @ language @ [10])
           (generate_enhanced_system_prompt (Some agent) (Some client) (Some age) (Some income) (Some goal) language)"
proof -
  have t: "is_true (Some agent) \<and> is_true (Some client)"
    using assms by (simp add: is_true_def)
  have a: "py_or (Some agent) [] = agent" "py_or (Some client) [] = client"
    by simp_all
  show "sublist (str ''- **Gromo Agent**: '' @ agent @ [10])
           (generate_enhanced_system_prompt (Some agent) (Some client) (Some age) (Some income) (Some goal) language)"
    unfolding generate_enhanced_system_prompt_def Let_def if_P[OF t] a append.assoc
    by (intro sublist_here3 sublist_later)
  show "sublist (str ''- **Client**: '' @ client @ [10])
           (generate_enhanced_system_prompt (Some agent) (Some client) (Some age) (Some income) (Some goal) language)"
    unfolding generate_enhanced_system_prompt_def Let_def if_P[OF t] a append.assoc
    by (intro sublist_here3 sublist_later)
  show "sublist (str ''- **Age**: '' @ py_or (Some age) (str ''Not specified'') @ [10])
           (generate_enhanced_system_prompt (Some agent) (Some client) (Some age) (Some income) (Some goal) language)"
    unfolding generate_enhanced_system_prompt_def Let_def if_P[OF t] a append.assoc
    by (intro sublist_here3 sublist_later)
  show "sublist (str ''- **Monthly Income**: '' @ [0x20B9] @ py_or (Some income) (str ''Not specified'') @ [10])
           (generate_enhanced_system_prompt (Some agent) (Some client) (Some age) (Some income) (Some goal) language)"
    unfolding generate_enhanced_system_prompt_def Let_def if_P[OF t] a append.assoc
    by (intro sublist_here4 sublist_later)
  show "sublist (str ''- **Goal**: '' @ py_or (Some goal) (str ''General financial guidance'') @ [10])
           (generate_enhanced_system_prompt (Some agent) (Some client) (Some age) (Some income) (Some goal) language)"
    unfolding generate_enhanced_system_prompt_def Let_def if_P[OF t] a append.assoc
    by (intro sublist_here3 sublist_later)
  show "sublist (str ''- **Language**: '' @ language @ [10])
           (generate_enhanced_system_prompt (Some agent) (Some client) (Some age) (Some income) (Some goal) language)"
    unfolding generate_enhanced_system_prompt_def Let_def if_P[OF t] a append.assoc
    by (intro sublist_here3 sublist_later)
qed

lemma prompt_without_profile:
  assumes "\<not> (is_true agent \<and> is_true client)"
  shows "generate_enhanced_system_prompt agent client age income goal language =
         generate_enhanced_system_prompt None None None None None []"
proof -
  have n: "\<not> (is_true None \<and> is_true None)"
    by (simp add: is_true_def)
  show ?thesis
    unfolding generate_enhanced_system_prompt_def Let_def if_not_P[OF assms] if_not_P[OF n]
    by (rule refl)
qed

text \<open>
  C5 (as amended). A \<open>POST /chat\<close> with a non-empty message and with \<open>reset\<close> true or a
  session id the store does not hold leaves the session as three messages: one system
  message with the composed prompt, the user message and the assistant message. When
  both \<open>agent_name\<close> and \<open>client_name\<close> are non-empty, the prompt holds the lines of the
  agent, the client and the language as supplied, the lines of age and income as
  supplied or with \<open>Not specified\<close> when empty, and the line of the goal as supplied or with
  \<open>General financial guidance\<close> when empty. When either of the two is empty, the prompt is
  the one of a request without any profile: no field is embedded, the language neither.
\<close>

theorem chat_creates_session:
  assumes "wf_conversations d"
    and "um = strip (get_default (f_message data) [])" and "um \<noteq> []"
    and "sid = get_default (f_session_id data) (new_uuid e)"
    and "get_default (f_reset data) False \<or> map_of (snd (clean_old_conversations d)) sid = None"
    and "agent = get_default (f_agent_name data) []"
    and "client = get_default (f_client_name data) []"
    and "age = get_default (f_client_age data) []"
    and "income = get_default (f_client_income data) []"
    and "goal = get_default (f_client_goal data) []"
    and "language = get_default (f_language data) (str ''English'')"
    and "prompt = generate_enhanced_system_prompt (Some agent) (Some client) (Some age)
                    (Some income) (Some goal) language"
  shows "(\<exists>a. role a = str ''assistant'' \<and>
            map_of (snd (chat e (Object data) d)) sid =
              Some [\<lparr>role = str ''system'', content = JStr prompt\<rparr>,
                    \<lparr>role = str ''user'', content = JStr um\<rparr>, a]) \<and>
         (agent \<noteq> [] \<and> client \<noteq> [] \<longrightarrow>
            sublist (str ''- **Gromo Agent**: '' @ agent @ [10]) prompt \<and>
            sublist (str ''- **Client**: '' @ client @ [10]) prompt \<and>
            sublist (str ''- **Age**: '' @ (if age = [] then str ''Not specified'' else age) @ [10]) prompt \<and>
            sublist (str ''- **Monthly Income**: '' @ [0x20B9] @
                     (if income = [] then str ''Not specified'' else income) @ [10]) prompt \<and>
            sublist (str ''- **Goal**: '' @
                     (if goal = [] then str ''General financial guidance'' else goal) @ [10]) prompt \<and>
            sublist (str ''- **Language**: '' @ language @ [10]) prompt) \<and>
         (agent = [] \<or> client = [] \<longrightarrow>
            prompt = generate_enhanced_system_prompt None None None None None [])"
proof -
  let ?sys = "\<lparr>role = str ''system'', content = JStr prompt\<rparr>"
  let ?u = "\<lparr>role = str ''user'', content = JStr um\<rparr>"
  have c: "chat e (Object data) d =
      chat_turn e sid um prompt (get_default (f_reset data) False) (snd (clean_old_conversations d))"
    using chat_accepts[OF assms(1), of data e] assms by simp
  have conv0: "(case map_of (snd (clean_old_conversations d)) sid of
                  None \<Rightarrow> [?sys]
                | Some conv \<Rightarrow> if get_default (f_reset data) False then [?sys] else conv) = [?sys]"
    using assms(5) by (auto split: option.splits)
  obtain a where a: "role a = str ''assistant''"
    and s: "map_of (snd (chat e (Object data) d)) sid = Some (trim ([?sys] @ [?u, a]))"
    using chat_turn_session[of e sid um prompt "get_default (f_reset data) False"
        "snd (clean_old_conversations d)"]
    unfolding c conv0 by blast
  have "trim ([?sys] @ [?u, a]) = [?sys, ?u, a]"
    by (simp add: trim_def MAX_MESSAGES_PER_CONVERSATION_def)
  with a s have first: "\<exists>a. role a = str ''assistant'' \<and>
      map_of (snd (chat e (Object data) d)) sid = Some [?sys, ?u, a]"
    by auto
  have second: "agent \<noteq> [] \<and> client \<noteq> [] \<longrightarrow>
            sublist (str ''- **Gromo Agent**: '' @ agent @ [10]) prompt \<and>
            sublist (str ''- **Client**: '' @ client @ [10]) prompt \<and>
            sublist (str ''- **Age**: '' @ (if age = [] then str ''Not specified'' else age) @ [10]) prompt \<and>
            sublist (str ''- **Monthly Income**: '' @ [0x20B9] @
                     (if income = [] then str ''Not specified'' else income) @ [10]) prompt \<and>
            sublist (str ''- **Goal**: '' @
                     (if goal = [] then str ''General financial guidance'' else goal) @ [10]) prompt \<and>
            sublist (str ''- **Language**: '' @ language @ [10]) prompt"
    using prompt_with_profile[where agent = agent and client = client and age = age
        and income = income and goal = goal and language = language]
    unfolding assms(12) py_or.simps by blast
  have third: "agent = [] \<or> client = [] \<longrightarrow>
      prompt = generate_enhanced_system_prompt None None None None None []"
    using prompt_without_profile[of "Some agent" "Some client" "Some age" "Some income" "Some goal" language]
    unfolding assms(12) by (auto simp: is_true_def)
  show ?thesis
    using first second third by blast
qed

theorem chat_creates_session_witness:
  "wf_conversations (sessions 3) \<and>
   strip (get_default (f_message profile_request) []) \<noteq> [] \<and>
   get_default (f_reset profile_request) False \<and>
   (\<exists>a. role a = str ''assistant'' \<and>
      map_of (snd (chat offline (Object profile_request) (sessions 3))) (session_key 1) =
        Some [\<lparr>role = str ''system'',
               content = JStr (generate_enhanced_system_prompt (Some (str ''Asha''))
                 (Some (str ''Ravi'')) (Some []) (Some (str ''50000'')) (Some [])
                 (str ''English''))\<rparr>,
              \<lparr>role = str ''user'', content = JStr (str ''Hello'')\<rparr>, a]) \<and>
   sublist (str ''- **Gromo Agent**: '' @ str ''Asha'' @ [10])
     (generate_enhanced_system_prompt (Some (str ''Asha'')) (Some (str ''Ravi'')) (Some [])
        (Some (str ''50000'')) (Some []) (str ''English'')) \<and>
   sublist (str ''- **Age**: '' @ str ''Not specified'' @ [10])
     (generate_enhanced_system_prompt (Some (str ''Asha'')) (Some (str ''Ravi'')) (Some [])
        (Some (str ''50000'')) (Some []) (str ''English'')) \<and>
   sublist (str ''- **Goal**: '' @ str ''General financial guidance'' @ [10])
     (generate_enhanced_system_prompt (Some (str ''Asha'')) (Some (str ''Ravi'')) (Some [])
        (Some (str ''50000'')) (Some []) (str ''English''))"
proof -
  have st: "strip (str ''Hello'') = str ''Hello''"
    by (simp add: strip_def str_def is_space_def)
  have m: "get_default (f_message profile_request) [] = str ''Hello''"
    by (simp add: profile_request_def)
  have h3: "strip (get_default (f_message profile_request) []) \<noteq> []"
    unfolding m st by (simp add: str_def)
  have h5: "get_default (f_reset profile_request) False \<or>
      map_of (snd (clean_old_conversations (sessions 3)))
        (get_default (f_session_id profile_request) (new_uuid offline)) = None"
    by (simp add: profile_request_def)
  have names: "str ''Asha'' \<noteq> []" "str ''Ravi'' \<noteq> []"
    by (simp_all add: str_def)
  have fields: "get_default (f_session_id profile_request) (new_uuid offline) = session_key 1"
    "get_default (f_agent_name profile_request) [] = str ''Asha''"
    "get_default (f_client_name profile_request) [] = str ''Ravi''"
    "get_default (f_client_age profile_request) [] = []"
    "get_default (f_client_income profile_request) [] = str ''50000''"
    "get_default (f_client_goal profile_request) [] = []"
    "get_default (f_language profile_request) (str ''English'') = str ''English''"
    "get_default (f_reset profile_request) False"
    by (simp_all add: profile_request_def empty_request_def)
  show ?thesis
    using h3 names fields(8)
      chat_creates_session[OF sessions_wf[of 3] refl h3 refl h5 refl refl refl refl refl refl refl]
    unfolding fields m st
    by (simp add: sessions_wf)
qed

text \<open>
  C5 as stated fails: the request of the test page of the source (client name, age and
  income, no agent name) on a new session id gets the prompt of a request without
  profile, which holds neither the client name, the age or the income supplied nor any
  \<open>Not specified\<close>.
\<close>

theorem chat_creates_session_counterexample:
  "map_of (snd (chat offline (Object test_page_request) [])) (str ''full-test-1'') =
     Some [\<lparr>role = str ''system'',
            content = JStr (generate_enhanced_system_prompt None None None None None [])\<rparr>,
           \<lparr>role = str ''user'', content = JStr (str ''Hello'')\<rparr>,
           \<lparr>role = str ''assistant'',
            content = JStr (generate_fallback_response (Some
              (str ''The AI is taking longer than usual to respond. Please try again.'')))\<rparr>] \<and>
   \<not> sublist (str ''Test User'') (generate_enhanced_system_prompt None None None None None []) \<and>
   \<not> sublist (str ''25'') (generate_enhanced_system_prompt None None None None None []) \<and>
   \<not> sublist (str ''50000'') (generate_enhanced_system_prompt None None None None None []) \<and>
   \<not> sublist (str ''Not specified'') (generate_enhanced_system_prompt None None None None None [])"
proof -
  have st: "strip (str ''Hello'') = str ''Hello''"
    by (simp add: strip_def str_def is_space_def)
  have m: "get_default (f_message test_page_request) [] = str ''Hello''"
    by (simp add: test_page_request_def)
  have h1: "wf_conversations []"
    by (simp add: wf_conversations_def)
  have h2: "strip (get_default (f_message test_page_request) []) \<noteq> []"
    unfolding m st by (simp add: str_def)
  have fields: "get_default (f_session_id test_page_request) (new_uuid offline) = str ''full-test-1''"
    "get_default (f_agent_name test_page_request) [] = []"
    "get_default (f_reset test_page_request) False = False"
    by (simp_all add: test_page_request_def empty_request_def)
  have p: "generate_enhanced_system_prompt (Some []) c a i g l =
      generate_enhanced_system_prompt None None None None None []" for c a i g l
    by (rule prompt_without_profile) (simp add: is_true_def)
  have g: "generate_groq_response (post offline) msgs 2000 =
      JStr (generate_fallback_response (Some
        (str ''The AI is taking longer than usual to respond. Please try again.'')))" for msgs
    by (simp add: generate_groq_response_def groq_request_def groq_except_def offline_def
        always_def timeout_error_def)
  have clean: "snd (clean_old_conversations []) = []"
    by (simp add: clean_old_conversations_def)
  have stored: "map_of (snd (chat offline (Object test_page_request) [])) (str ''full-test-1'') =
     Some [\<lparr>role = str ''system'',
            content = JStr (generate_enhanced_system_prompt None None None None None [])\<rparr>,
           \<lparr>role = str ''user'', content = JStr (str ''Hello'')\<rparr>,
           \<lparr>role = str ''assistant'',
            content = JStr (generate_fallback_response (Some
              (str ''The AI is taking longer than usual to respond. Please try again.'')))\<rparr>]"
    unfolding chat_accepts[OF h1 h2] fields m st p clean
    by (simp add: chat_turn_def Let_def g fallback_nonempty trim_def
        MAX_MESSAGES_PER_CONVERSATION_def)
  have absent:
    "\<not> sublist (str ''Test User'') (generate_enhanced_system_prompt None None None None None [])"
    "\<not> sublist (str ''25'') (generate_enhanced_system_prompt None None None None None [])"
    "\<not> sublist (str ''50000'') (generate_enhanced_system_prompt None None None None None [])"
    "\<not> sublist (str ''Not specified'') (generate_enhanced_system_prompt None None None None None [])"
    by (simp_all add: generate_enhanced_system_prompt_def is_true_def marker_quick_summary_def
        marker_detailed_explanation_def marker_practical_examples_def marker_actionable_steps_def
        marker_related_questions_def str_def sublist_code)
  show ?thesis
    using stored absent by blast
qed

section \<open>The alias endpoint\<close>

lemma dict_set_other: "k \<noteq> sid \<Longrightarrow> map_of (dict_set sid v d) k = map_of d k"
  by (simp add: dict_set_map_of)

lemma dict_set_length:
  "length (dict_set k v d) = (if k \<in> fst ` set d then length d else length d + 1)"
  using arg_cong[OF dict_set_keys[of k v d], of length] by (simp split: if_splits)

lemma api_chat_store:
  assumes "strip (get_default (f_message data) []) \<noteq> []"
  shows "\<exists>x. snd (api_chat e (Object data) d) =
     dict_set (py_or (f_sessionId data) (get_default (f_session_id data) (new_uuid e)))
       (((case map_of d (py_or (f_sessionId data) (get_default (f_session_id data) (new_uuid e))) of
            None \<Rightarrow> [\<lparr>role = str ''system'',
                      content = JStr (generate_enhanced_system_prompt None None None None None
                                        (get_default (f_language data) (str ''English'')))\<rparr>]
          | Some conv \<Rightarrow> conv) @
         [\<lparr>role = str ''user'', content = JStr (strip (get_default (f_message data) []))\<rparr>]) @
        [\<lparr>role = str ''assistant'', content = x\<rparr>]) d"
  unfolding api_chat_def request_body.case Let_def if_not_P[OF assms] snd_conv
  by (rule exI) (rule refl)

lemma api_chat_status:
  assumes "strip (get_default (f_message data) []) \<noteq> []"
  shows "snd (fst (api_chat e (Object data) d)) = 200 \<and>
         member (fst (api_chat e (Object data) d)) (str ''success'') = Some (JBool True)"
  using assms by (simp add: api_chat_def Let_def member_def)

text \<open>
  C10. A \<open>POST /api/chat\<close> with a non-empty message is answered with status 200 and the
  response: the value the gateway client returns for the session's messages with the user
  message appended, or the fallback template when that value is empty. It leaves the
  session as its former messages (the composed system message when the session is new)
  followed by the user message and the assistant message holding that response, nothing
  dropped. No other session changes and none is removed: the keys are the former ones,
  with the session id added at the end when it is new. Neither count is capped.
\<close>

theorem api_chat_appends_two:
  assumes "um = strip (get_default (f_message data) [])" and "um \<noteq> []"
    and "sid = py_or (f_sessionId data) (get_default (f_session_id data) (new_uuid e))"
    and "base = (case map_of d sid of
                   None \<Rightarrow> [\<lparr>role = str ''system'',
                             content = JStr (generate_enhanced_system_prompt None None None None None
                                               (get_default (f_language data) (str ''English'')))\<rparr>]
                 | Some conv \<Rightarrow> conv)"
    and "u = \<lparr>role = str ''user'', content = JStr um\<rparr>"
    and "g = generate_groq_response (post e) (base @ [u]) 2000"
    and "r = (if \<not> truthy g
              then JStr (generate_fallback_response (Some (str ''Failed to generate response'')))
              else g)"
    and "a = \<lparr>role = str ''assistant'', content = r\<rparr>"
  shows "snd (fst (api_chat e (Object data) d)) = 200 \<and>
         member (fst (api_chat e (Object data) d)) (str ''success'') = Some (JBool True) \<and>
         member (fst (api_chat e (Object data) d)) (str ''response'') = Some r \<and>
         member (fst (api_chat e (Object data) d)) (str ''message'') = Some r \<and>
         snd (api_chat e (Object data) d) = dict_set sid (base @ [u, a]) d \<and>
         map_of (snd (api_chat e (Object data) d)) sid = Some (base @ [u, a]) \<and>
         length (base @ [u, a]) = length base + 2 \<and>
         (k \<noteq> sid \<longrightarrow> map_of (snd (api_chat e (Object data) d)) k = map_of d k) \<and>
         map fst (snd (api_chat e (Object data) d)) =
           (if sid \<in> fst ` set d then map fst d else map fst d @ [sid]) \<and>
         length (snd (api_chat e (Object data) d)) =
           (if sid \<in> fst ` set d then length d else length d + 1)"
proof -
  have ne: "strip (get_default (f_message data) []) \<noteq> []"
    using assms(1,2) by simp
  have keys: "str ''response'' \<noteq> str ''success''" "str ''message'' \<noteq> str ''success''"
    "str ''message'' \<noteq> str ''response''"
    by (simp_all add: str_def)
  have whole: "api_chat e (Object data) d =
      ((JObj [(str ''success'', JBool True), (str ''response'', r), (str ''message'', r),
              (str ''session_id'', JStr sid), (str ''timestamp'', JStr (now e))], 200),
       dict_set sid (base @ [u, a]) d)"
    unfolding api_chat_def request_body.case Let_def if_not_P[OF ne]
    using assms by simp
  show ?thesis
    unfolding whole using keys
    by (simp add: member_def dict_set_map_of dict_set_keys dict_set_length)
qed

theorem api_chat_appends_two_witness:
  "strip (get_default (f_message
     (empty_request\<lparr>f_sessionId := Some (session_key 1), f_message := Some (str ''Hello'')\<rparr>)) []) \<noteq> [] \<and>
   member (fst (api_chat offline
        (Object (empty_request\<lparr>f_sessionId := Some (session_key 1), f_message := Some (str ''Hello'')\<rparr>))
        [(session_key 1, long_session 49)])) (str ''response'') =
     Some (JStr (generate_fallback_response (Some
       (str ''The AI is taking longer than usual to respond. Please try again.'')))) \<and>
   map_of (snd (api_chat offline
        (Object (empty_request\<lparr>f_sessionId := Some (session_key 1), f_message := Some (str ''Hello'')\<rparr>))
        [(session_key 1, long_session 49)])) (session_key 1) =
     Some (long_session 49 @
             [\<lparr>role = str ''user'', content = JStr (str ''Hello'')\<rparr>,
              \<lparr>role = str ''assistant'',
               content = JStr (generate_fallback_response (Some
                 (str ''The AI is taking longer than usual to respond. Please try again.'')))\<rparr>]) \<and>
   length (long_session 49 @
             [\<lparr>role = str ''user'', content = JStr (str ''Hello'')\<rparr>,
              \<lparr>role = str ''assistant'',
               content = JStr (generate_fallback_response (Some
                 (str ''The AI is taking longer than usual to respond. Please try again.'')))\<rparr>]) = 52 \<and>
   52 > MAX_MESSAGES_PER_CONVERSATION \<and>
   length (sessions 100) = MAX_CONVERSATIONS \<and>
   length (snd (api_chat offline
        (Object (empty_request\<lparr>f_session_id := Some (session_key 100), f_message := Some (str ''Hello'')\<rparr>))
        (sessions 100))) = 101 \<and>
   101 > MAX_CONVERSATIONS"
proof -
  have st: "strip (str ''Hello'') = str ''Hello''"
    by (simp add: strip_def str_def is_space_def)
  have hello: "str ''Hello'' \<noteq> []"
    by (simp add: str_def)
  have key: "session_key 1 \<noteq> []"
    by (simp add: session_key_def str_def)
  have um1: "str ''Hello'' = strip (get_default (f_message
     (empty_request\<lparr>f_sessionId := Some (session_key 1), f_message := Some (str ''Hello'')\<rparr>)) [])"
    by (simp add: st)
  have um2: "str ''Hello'' = strip (get_default (f_message
     (empty_request\<lparr>f_session_id := Some (session_key 100), f_message := Some (str ''Hello'')\<rparr>)) [])"
    by (simp add: st)
  have sid1: "session_key 1 = py_or (f_sessionId
      (empty_request\<lparr>f_sessionId := Some (session_key 1), f_message := Some (str ''Hello'')\<rparr>))
      (get_default (f_session_id
        (empty_request\<lparr>f_sessionId := Some (session_key 1), f_message := Some (str ''Hello'')\<rparr>))
        (new_uuid offline))"
    using key by simp
  have sid2: "session_key 100 = py_or (f_sessionId
      (empty_request\<lparr>f_session_id := Some (session_key 100), f_message := Some (str ''Hello'')\<rparr>))
      (get_default (f_session_id
        (empty_request\<lparr>f_session_id := Some (session_key 100), f_message := Some (str ''Hello'')\<rparr>))
        (new_uuid offline))"
    by (simp add: empty_request_def)
  have base1: "long_session 49 =
      (case map_of [(session_key 1, long_session 49)] (session_key 1) of
         None \<Rightarrow> [\<lparr>role = str ''system'', content = JStr p\<rparr>]
       | Some conv \<Rightarrow> conv)" for p
    by simp
  have g: "generate_groq_response (post offline) msgs 2000 =
      JStr (generate_fallback_response (Some
        (str ''The AI is taking longer than usual to respond. Please try again.'')))" for msgs
    by (simp add: generate_groq_response_def groq_request_def groq_except_def offline_def
        always_def timeout_error_def)
  have r: "JStr (generate_fallback_response (Some
        (str ''The AI is taking longer than usual to respond. Please try again.''))) =
      (if \<not> truthy (generate_groq_response (post offline) msgs 2000)
       then JStr (generate_fallback_response (Some (str ''Failed to generate response'')))
       else generate_groq_response (post offline) msgs 2000)" for msgs
    unfolding g by (simp add: fallback_nonempty)
  have new: "session_key 100 \<notin> fst ` set (sessions 100)"
    by (auto simp: sessions_def session_key_def dest: digits_inj)
  have len: "length (long_session 49) = 50"
    by (simp add: long_session_def)
  note one = api_chat_appends_two[OF um1 hello sid1 base1 refl refl r refl]
  note two = api_chat_appends_two[OF um2 hello sid2 refl refl refl refl refl,
      where d = "sessions 100"]
  have a: "member (fst (api_chat offline
        (Object (empty_request\<lparr>f_sessionId := Some (session_key 1), f_message := Some (str ''Hello'')\<rparr>))
        [(session_key 1, long_session 49)])) (str ''response'') =
     Some (JStr (generate_fallback_response (Some
       (str ''The AI is taking longer than usual to respond. Please try again.''))))"
    by (rule one[THEN conjunct2, THEN conjunct2, THEN conjunct1])
  have b: "map_of (snd (api_chat offline
        (Object (empty_request\<lparr>f_sessionId := Some (session_key 1), f_message := Some (str ''Hello'')\<rparr>))
        [(session_key 1, long_session 49)])) (session_key 1) =
     Some (long_session 49 @
             [\<lparr>role = str ''user'', content = JStr (str ''Hello'')\<rparr>,
              \<lparr>role = str ''assistant'',
               content = JStr (generate_fallback_response (Some
                 (str ''The AI is taking longer than usual to respond. Please try again.'')))\<rparr>])"
    by (rule one[THEN conjunct2, THEN conjunct2, THEN conjunct2, THEN conjunct2, THEN conjunct2,
          THEN conjunct1])
  have c: "length (snd (api_chat offline
        (Object (empty_request\<lparr>f_session_id := Some (session_key 100), f_message := Some (str ''Hello'')\<rparr>))
        (sessions 100))) = 101"
    using two[THEN conjunct2, THEN conjunct2, THEN conjunct2, THEN conjunct2, THEN conjunct2,
          THEN conjunct2, THEN conjunct2, THEN conjunct2, THEN conjunct2] new
    by (simp add: sessions_length)
  show ?thesis
    using a b c hello
    by (simp add: st len sessions_length MAX_CONVERSATIONS_def MAX_MESSAGES_PER_CONVERSATION_def)
qed

section \<open>Each key once: an invariant of the handlers\<close>

lemma chat_preserves_wf:
  assumes "wf_conversations d"
  shows "wf_conversations (snd (chat e req d))"
proof (cases req)
  case (Object data)
  show ?thesis
  proof (cases "strip (get_default (f_message data) []) = []")
    case True
    then show ?thesis
      using assms clean_preserves_wf[OF assms] by (simp add: Object chat_rejects)
  next
    case False
    obtain x where "snd (chat e req d) =
        dict_set (get_default (f_session_id data) (new_uuid e)) x (snd (clean_old_conversations d))"
      using chat_turn_store unfolding Object chat_accepts[OF assms False] by blast
    then show ?thesis
      using clean_preserves_wf[OF assms] by (simp add: dict_set_wf)
  qed
qed (use assms clean_preserves_wf[OF assms] in \<open>auto simp: chat_def clean_wf\<close>)

lemma api_chat_preserves_wf:
  assumes "wf_conversations d"
  shows "wf_conversations (snd (api_chat e req d))"
proof (cases req)
  case (Object data)
  show ?thesis
  proof (cases "strip (get_default (f_message data) []) = []")
    case True
    then show ?thesis
      using assms by (simp add: Object api_chat_def Let_def)
  next
    case False
    obtain x where "snd (api_chat e req d) =
        dict_set (py_or (f_sessionId data) (get_default (f_session_id data) (new_uuid e))) x d"
      using api_chat_store[OF False] unfolding Object by blast
    then show ?thesis
      using assms by (simp add: dict_set_wf)
  qed
qed (use assms in \<open>auto simp: api_chat_def\<close>)

lemma clear_conversation_preserves_wf:
  "wf_conversations d \<Longrightarrow> wf_conversations (snd (clear_conversation sid d))"
  by (simp add: clear_conversation_def dict_del_def wf_conversations_def distinct_map_filter)

end
